theory Spec2Isabelle
  imports Complex_Main "HOL-Library.List_Lexorder" "HOL-Library.Product_Lexorder"
    "HOL-Library.Multiset"
begin

section \<open>Strings, constants and records\<close>

text \<open>
  A Python \<open>str\<close> is the sequence of its Unicode code points; equality and the order used
  by \<open>sorted\<close> are those of the code point lists (a proper prefix is smaller).
  \<open>py\<close> reads an ASCII literal.
\<close>

type_synonym pystr = "nat list"

definition py :: "string \<Rightarrow> pystr" where
  "py s = map of_char s"

text \<open>
  The string literals of \<^verbatim>\<open>pages/01\<close>: the two results, the two seats and the two
  placeholders of the select boxes, by code point.
\<close>

definition WIN :: pystr where
  "WIN = [0x52DD, 0x3061]"

definition LOSS :: pystr where
  "LOSS = [0x8CA0, 0x3051]"

definition FIRST :: pystr where
  "FIRST = [0x5148, 0x653B]"

definition SECOND :: pystr where
  "SECOND = [0x5F8C, 0x653B]"

definition ALL_TYPES_PLACEHOLDER :: pystr where
  "ALL_TYPES_PLACEHOLDER = [0x5168, 0x30BF, 0x30A4, 0x30D7]"

definition SELECT_PLACEHOLDER :: pystr where
  "SELECT_PLACEHOLDER = [0x2D, 0x2D, 0x2D, 0x20, 0x9078, 0x629E, 0x3057, 0x3066, 0x304F,
     0x3060, 0x3055, 0x3044, 0x20, 0x2D, 0x2D, 0x2D]"

text \<open>
  \<open>str.strip()\<close> removes the code points for which \<open>str.isspace()\<close> holds from both ends.
\<close>

definition isspace :: "nat \<Rightarrow> bool" where
  "isspace c \<longleftrightarrow> c \<in> set ([0x9, 0xA, 0xB, 0xC, 0xD, 0x1C, 0x1D, 0x1E, 0x1F, 0x20, 0x85, 0xA0,
     0x1680] @ [0x2000 ..< 0x200B] @ [0x2028, 0x2029, 0x202F, 0x205F, 0x3000])"

definition strip :: "pystr \<Rightarrow> pystr" where
  "strip s = rev (dropWhile isspace (rev (dropWhile isspace s)))"

text \<open>
  The source only ever compares \<open>s.lower()\<close> with \<open>'nan'\<close>. No code point other than
  \<open>N\<close>, \<open>n\<close>, \<open>A\<close>, \<open>a\<close> lower-cases to \<open>n\<close> or \<open>a\<close>, so the comparison is decided by
  lower-casing the ASCII capitals.
\<close>

definition lower_ascii :: "nat \<Rightarrow> nat" where
  "lower_ascii c = (if 0x41 \<le> c \<and> c \<le> 0x5A then c + 0x20 else c)"

definition lower_eq_nan :: "pystr \<Rightarrow> bool" where
  "lower_eq_nan s \<longleftrightarrow> map lower_ascii s = py ''nan''"

text \<open>
  A row of the data frame after \<open>load_data\<close>: the nine string columns hold \<open>str\<close> values
  (a missing cell has become \<open>'nan'\<close>), \<open>date\<close> is a timestamp or \<open>NaT\<close>, \<open>finish_turn\<close>
  a nullable integer. The data frame is the list of its rows, in row order. The type of
  the \<open>date\<close> column is a parameter, because the memo table replaces it by its rendering.
\<close>

datatype timestamp = Timestamp (year: nat) (month: nat) (day: nat) (time_of_day: nat)

record 'd match_record =
  season :: pystr
  date :: 'd
  environment :: pystr
  my_deck :: pystr
  my_deck_type :: pystr
  opponent_deck :: pystr
  opponent_deck_type :: pystr
  first_second :: pystr
  result :: pystr
  finish_turn :: "int option"
  memo :: pystr

type_synonym row = "timestamp option match_record"

type_synonym dataframe = "row list"

text \<open>
  Python's \<open>/\<close> raises on a zero divisor. Rates are exact rationals here (the source
  computes them in binary floating point).
\<close>

datatype py_error = ZeroDivisionError

definition truediv :: "nat \<Rightarrow> nat \<Rightarrow> py_error + rat" where
  "truediv a b = (if b = 0 then Inl ZeroDivisionError else Inr (of_nat a / of_nat b))"

definition bind_err :: "py_error + 'a \<Rightarrow> ('a \<Rightarrow> py_error + 'b) \<Rightarrow> py_error + 'b" where
  "bind_err m f = (case m of Inl e \<Rightarrow> Inl e | Inr x \<Rightarrow> f x)"

text \<open>\<open>a / b * 100\<close>\<close>

definition percent :: "nat \<Rightarrow> nat \<Rightarrow> py_error + rat" where
  "percent a b = bind_err (truediv a b) (\<lambda>q. Inr (q * 100))"

text \<open>\<open>(a / b * 100) if b > 0 else None\<close>\<close>

definition percent_or_None :: "nat \<Rightarrow> nat \<Rightarrow> py_error + rat option" where
  "percent_or_None a b = (if b > 0 then bind_err (percent a b) (\<lambda>p. Inr (Some p)) else Inr None)"

text \<open>\<open>(a / b * 100) if b > 0 else 0.0\<close>\<close>

definition percent_or_zero :: "nat \<Rightarrow> nat \<Rightarrow> py_error + rat" where
  "percent_or_zero a b = (if b > 0 then percent a b else Inr 0)"

text \<open>\<open>pd.Series(xs).mean() if xs else None\<close>\<close>

definition mean_or_None :: "rat list \<Rightarrow> rat option" where
  "mean_or_None xs = (if xs \<noteq> [] then Some (sum_list xs / of_nat (length xs)) else None)"

text \<open>\<open>df['finish_turn'].dropna().tolist()\<close>\<close>

definition finish_turns :: "dataframe \<Rightarrow> rat list" where
  "finish_turns df = map of_int (List.map_filter finish_turn df)"

section \<open>Focus analysis: the two subsets and the overall figures\<close>

text \<open>
  \<open>show_analysis_section\<close>, from the selection of a focus deck on. \<open>deck\<close> is
  \<open>selected_focus_deck\<close> and \<open>ty\<close> is \<open>selected_focus_type\<close>; the type condition is applied
  when \<open>ty\<close> is truthy and is not the all-types placeholder.
\<close>

definition type_selected :: "pystr \<Rightarrow> bool" where
  "type_selected ty \<longleftrightarrow> ty \<noteq> [] \<and> ty \<noteq> ALL_TYPES_PLACEHOLDER"

definition cond_my_deck_focus :: "pystr \<Rightarrow> pystr \<Rightarrow> row \<Rightarrow> bool" where
  "cond_my_deck_focus deck ty r \<longleftrightarrow>
     my_deck r = deck \<and> (if type_selected ty then my_deck_type r = ty else True)"

definition cond_opponent_deck_focus :: "pystr \<Rightarrow> pystr \<Rightarrow> row \<Rightarrow> bool" where
  "cond_opponent_deck_focus deck ty r \<longleftrightarrow>
     opponent_deck r = deck \<and> (if type_selected ty then opponent_deck_type r = ty else True)"

definition focus_as_my_deck_games :: "dataframe \<Rightarrow> pystr \<Rightarrow> pystr \<Rightarrow> dataframe" where
  "focus_as_my_deck_games df deck ty = filter (cond_my_deck_focus deck ty) df"

definition focus_as_opponent_deck_games :: "dataframe \<Rightarrow> pystr \<Rightarrow> pystr \<Rightarrow> dataframe" where
  "focus_as_opponent_deck_games df deck ty = filter (cond_opponent_deck_focus deck ty) df"

definition total_appearances :: "dataframe \<Rightarrow> pystr \<Rightarrow> pystr \<Rightarrow> nat" where
  "total_appearances df deck ty =
     length (focus_as_my_deck_games df deck ty) + length (focus_as_opponent_deck_games df deck ty)"

definition wins_when_focus_is_my_deck_df :: "dataframe \<Rightarrow> pystr \<Rightarrow> pystr \<Rightarrow> dataframe" where
  "wins_when_focus_is_my_deck_df df deck ty =
     filter (\<lambda>r. result r = WIN) (focus_as_my_deck_games df deck ty)"

definition wins_when_focus_is_opponent_deck_df :: "dataframe \<Rightarrow> pystr \<Rightarrow> pystr \<Rightarrow> dataframe" where
  "wins_when_focus_is_opponent_deck_df df deck ty =
     filter (\<lambda>r. result r = LOSS) (focus_as_opponent_deck_games df deck ty)"

definition total_wins_for_focus_deck :: "dataframe \<Rightarrow> pystr \<Rightarrow> pystr \<Rightarrow> nat" where
  "total_wins_for_focus_deck df deck ty =
     length (wins_when_focus_is_my_deck_df df deck ty)
     + length (wins_when_focus_is_opponent_deck_df df deck ty)"

definition total_losses_for_focus_deck :: "dataframe \<Rightarrow> pystr \<Rightarrow> pystr \<Rightarrow> nat" where
  "total_losses_for_focus_deck df deck ty =
     total_appearances df deck ty - total_wins_for_focus_deck df deck ty"

definition win_rate_for_focus_deck :: "dataframe \<Rightarrow> pystr \<Rightarrow> pystr \<Rightarrow> py_error + rat" where
  "win_rate_for_focus_deck df deck ty =
     percent_or_zero (total_wins_for_focus_deck df deck ty) (total_appearances df deck ty)"

definition win_finish_turns :: "dataframe \<Rightarrow> pystr \<Rightarrow> pystr \<Rightarrow> rat list" where
  "win_finish_turns df deck ty =
     (if wins_when_focus_is_my_deck_df df deck ty \<noteq> []
      then finish_turns (wins_when_focus_is_my_deck_df df deck ty) else [])
     @ (if wins_when_focus_is_opponent_deck_df df deck ty \<noteq> []
        then finish_turns (wins_when_focus_is_opponent_deck_df df deck ty) else [])"

definition avg_win_finish_turn_val :: "dataframe \<Rightarrow> pystr \<Rightarrow> pystr \<Rightarrow> rat option" where
  "avg_win_finish_turn_val df deck ty = mean_or_None (win_finish_turns df deck ty)"

definition focus_first_my :: "dataframe \<Rightarrow> pystr \<Rightarrow> pystr \<Rightarrow> dataframe" where
  "focus_first_my df deck ty =
     filter (\<lambda>r. first_second r = FIRST) (focus_as_my_deck_games df deck ty)"

definition focus_first_opp :: "dataframe \<Rightarrow> pystr \<Rightarrow> pystr \<Rightarrow> dataframe" where
  "focus_first_opp df deck ty =
     filter (\<lambda>r. first_second r = SECOND) (focus_as_opponent_deck_games df deck ty)"

definition total_games_focus_first :: "dataframe \<Rightarrow> pystr \<Rightarrow> pystr \<Rightarrow> nat" where
  "total_games_focus_first df deck ty =
     length (focus_first_my df deck ty) + length (focus_first_opp df deck ty)"

definition wins_focus_first :: "dataframe \<Rightarrow> pystr \<Rightarrow> pystr \<Rightarrow> nat" where
  "wins_focus_first df deck ty =
     length (filter (\<lambda>r. result r = WIN) (focus_first_my df deck ty))
     + length (filter (\<lambda>r. result r = LOSS) (focus_first_opp df deck ty))"

definition win_rate_focus_first :: "dataframe \<Rightarrow> pystr \<Rightarrow> pystr \<Rightarrow> py_error + rat option" where
  "win_rate_focus_first df deck ty =
     percent_or_None (wins_focus_first df deck ty) (total_games_focus_first df deck ty)"

definition focus_second_my :: "dataframe \<Rightarrow> pystr \<Rightarrow> pystr \<Rightarrow> dataframe" where
  "focus_second_my df deck ty =
     filter (\<lambda>r. first_second r = SECOND) (focus_as_my_deck_games df deck ty)"

definition focus_second_opp :: "dataframe \<Rightarrow> pystr \<Rightarrow> pystr \<Rightarrow> dataframe" where
  "focus_second_opp df deck ty =
     filter (\<lambda>r. first_second r = FIRST) (focus_as_opponent_deck_games df deck ty)"

definition total_games_focus_second :: "dataframe \<Rightarrow> pystr \<Rightarrow> pystr \<Rightarrow> nat" where
  "total_games_focus_second df deck ty =
     length (focus_second_my df deck ty) + length (focus_second_opp df deck ty)"

definition wins_focus_second :: "dataframe \<Rightarrow> pystr \<Rightarrow> pystr \<Rightarrow> nat" where
  "wins_focus_second df deck ty =
     length (filter (\<lambda>r. result r = WIN) (focus_second_my df deck ty))
     + length (filter (\<lambda>r. result r = LOSS) (focus_second_opp df deck ty))"

definition win_rate_focus_second :: "dataframe \<Rightarrow> pystr \<Rightarrow> pystr \<Rightarrow> py_error + rat option" where
  "win_rate_focus_second df deck ty =
     percent_or_None (wins_focus_second df deck ty) (total_games_focus_second df deck ty)"

section \<open>Focus analysis: the matchup table\<close>

text \<open>
  \<open>Series.unique()\<close> and \<open>DataFrame.drop_duplicates()\<close> keep the first occurrence of every
  value, in order of appearance.
\<close>

definition unique :: "'a list \<Rightarrow> 'a list" where
  "unique xs = rev (remdups (rev xs))"

text \<open>
  \<open>opponents_set\<close> is a Python set; it is kept here as the list of the pairs that were
  added, and \<open>all_faced_opponents_tuples\<close> sorts its distinct members that pass the guard
  on the name.
\<close>

definition opponents_set :: "dataframe \<Rightarrow> pystr \<Rightarrow> pystr \<Rightarrow> (pystr \<times> pystr) list" where
  "opponents_set df deck ty =
     (if focus_as_my_deck_games df deck ty \<noteq> []
      then unique (map (\<lambda>r. (opponent_deck r, opponent_deck_type r))
             (focus_as_my_deck_games df deck ty)) else [])
     @ (if focus_as_opponent_deck_games df deck ty \<noteq> []
        then unique (map (\<lambda>r. (my_deck r, my_deck_type r))
               (focus_as_opponent_deck_games df deck ty)) else [])"

definition all_faced_opponents_tuples ::
  "dataframe \<Rightarrow> pystr \<Rightarrow> pystr \<Rightarrow> (pystr \<times> pystr) list" where
  "all_faced_opponents_tuples df deck ty =
     sort (remdups (filter (\<lambda>opp_tuple. fst opp_tuple \<noteq> [] \<and> \<not> lower_eq_nan (fst opp_tuple))
       (opponents_set df deck ty)))"

text \<open>
  A row of the matchup table. The column \<open>games_played_display\<close> is the string
  \<open>"{games} (first: {first games})"\<close>; the two numbers it shows are kept as two fields.
\<close>

record matchup_row =
  row_deck :: pystr
  row_type :: pystr
  games_played :: nat
  first_games :: nat
  focus_wins :: nat
  win_rate :: rat
  avg_win_turn :: "rat option"
  avg_loss_turn :: "rat option"
  win_rate_first :: "rat option"
  win_rate_second :: "rat option"

text \<open>The rows by opponent deck and type: one iteration of the loop over the tuples.\<close>

definition case1_games :: "dataframe \<Rightarrow> pystr \<Rightarrow> pystr \<Rightarrow> pystr \<Rightarrow> pystr \<Rightarrow> dataframe" where
  "case1_games df deck ty opp_deck_name opp_deck_type =
     filter (\<lambda>r. opponent_deck r = opp_deck_name \<and> opponent_deck_type r = opp_deck_type)
       (focus_as_my_deck_games df deck ty)"

definition case2_games :: "dataframe \<Rightarrow> pystr \<Rightarrow> pystr \<Rightarrow> pystr \<Rightarrow> pystr \<Rightarrow> dataframe" where
  "case2_games df deck ty opp_deck_name opp_deck_type =
     filter (\<lambda>r. my_deck r = opp_deck_name \<and> my_deck_type r = opp_deck_type)
       (focus_as_opponent_deck_games df deck ty)"

definition games_played_count :: "dataframe \<Rightarrow> pystr \<Rightarrow> pystr \<Rightarrow> pystr \<Rightarrow> pystr \<Rightarrow> nat" where
  "games_played_count df deck ty on ot =
     length (case1_games df deck ty on ot) + length (case2_games df deck ty on ot)"

definition focus_deck_wins_count :: "dataframe \<Rightarrow> pystr \<Rightarrow> pystr \<Rightarrow> pystr \<Rightarrow> pystr \<Rightarrow> nat" where
  "focus_deck_wins_count df deck ty on ot =
     length (filter (\<lambda>r. result r = WIN) (case1_games df deck ty on ot))
     + length (filter (\<lambda>r. result r = LOSS) (case2_games df deck ty on ot))"

definition focus_deck_win_turns_vs_opp ::
  "dataframe \<Rightarrow> pystr \<Rightarrow> pystr \<Rightarrow> pystr \<Rightarrow> pystr \<Rightarrow> rat list" where
  "focus_deck_win_turns_vs_opp df deck ty on ot =
     finish_turns (filter (\<lambda>r. result r = WIN) (case1_games df deck ty on ot))
     @ finish_turns (filter (\<lambda>r. result r = LOSS) (case2_games df deck ty on ot))"

definition focus_deck_loss_turns_vs_opp ::
  "dataframe \<Rightarrow> pystr \<Rightarrow> pystr \<Rightarrow> pystr \<Rightarrow> pystr \<Rightarrow> rat list" where
  "focus_deck_loss_turns_vs_opp df deck ty on ot =
     finish_turns (filter (\<lambda>r. result r = LOSS) (case1_games df deck ty on ot))
     @ finish_turns (filter (\<lambda>r. result r = WIN) (case2_games df deck ty on ot))"

definition fd_vs_opp_first_games_count ::
  "dataframe \<Rightarrow> pystr \<Rightarrow> pystr \<Rightarrow> pystr \<Rightarrow> pystr \<Rightarrow> nat" where
  "fd_vs_opp_first_games_count df deck ty on ot =
     length (filter (\<lambda>r. first_second r = FIRST) (case1_games df deck ty on ot))
     + length (filter (\<lambda>r. first_second r = SECOND) (case2_games df deck ty on ot))"

definition fd_vs_opp_first_wins_count ::
  "dataframe \<Rightarrow> pystr \<Rightarrow> pystr \<Rightarrow> pystr \<Rightarrow> pystr \<Rightarrow> nat" where
  "fd_vs_opp_first_wins_count df deck ty on ot =
     length (filter (\<lambda>r. result r = WIN)
       (filter (\<lambda>r. first_second r = FIRST) (case1_games df deck ty on ot)))
     + length (filter (\<lambda>r. result r = LOSS)
         (filter (\<lambda>r. first_second r = SECOND) (case2_games df deck ty on ot)))"

definition fd_vs_opp_second_games_count ::
  "dataframe \<Rightarrow> pystr \<Rightarrow> pystr \<Rightarrow> pystr \<Rightarrow> pystr \<Rightarrow> nat" where
  "fd_vs_opp_second_games_count df deck ty on ot =
     length (filter (\<lambda>r. first_second r = SECOND) (case1_games df deck ty on ot))
     + length (filter (\<lambda>r. first_second r = FIRST) (case2_games df deck ty on ot))"

definition fd_vs_opp_second_wins_count ::
  "dataframe \<Rightarrow> pystr \<Rightarrow> pystr \<Rightarrow> pystr \<Rightarrow> pystr \<Rightarrow> nat" where
  "fd_vs_opp_second_wins_count df deck ty on ot =
     length (filter (\<lambda>r. result r = WIN)
       (filter (\<lambda>r. first_second r = SECOND) (case1_games df deck ty on ot)))
     + length (filter (\<lambda>r. result r = LOSS)
         (filter (\<lambda>r. first_second r = FIRST) (case2_games df deck ty on ot)))"

text \<open>The row is appended only when \<open>games_played_count > 0\<close>; \<open>None\<close> is "no row".\<close>

definition specific_row ::
  "dataframe \<Rightarrow> pystr \<Rightarrow> pystr \<Rightarrow> pystr \<times> pystr \<Rightarrow> py_error + matchup_row option" where
  "specific_row df deck ty opp_tuple =
     (let on = fst opp_tuple; ot = snd opp_tuple in
      if games_played_count df deck ty on ot > 0
      then
        bind_err (percent (focus_deck_wins_count df deck ty on ot)
                    (games_played_count df deck ty on ot)) (\<lambda>win_rate_vs_opp.
        bind_err (percent_or_None (fd_vs_opp_first_wins_count df deck ty on ot)
                    (fd_vs_opp_first_games_count df deck ty on ot)) (\<lambda>win_rate_fd_first_vs_opp.
        bind_err (percent_or_None (fd_vs_opp_second_wins_count df deck ty on ot)
                    (fd_vs_opp_second_games_count df deck ty on ot)) (\<lambda>win_rate_fd_second_vs_opp.
        Inr (Some \<lparr>row_deck = on, row_type = ot,
          games_played = games_played_count df deck ty on ot,
          first_games = fd_vs_opp_first_games_count df deck ty on ot,
          focus_wins = focus_deck_wins_count df deck ty on ot,
          win_rate = win_rate_vs_opp,
          avg_win_turn = mean_or_None (focus_deck_win_turns_vs_opp df deck ty on ot),
          avg_loss_turn = mean_or_None (focus_deck_loss_turns_vs_opp df deck ty on ot),
          win_rate_first = win_rate_fd_first_vs_opp,
          win_rate_second = win_rate_fd_second_vs_opp\<rparr>))))
      else Inr None)"

text \<open>
  A loop that appends a row or nothing per element; an exception in one iteration ends
  the loop.
\<close>

fun collect_rows :: "('a \<Rightarrow> py_error + 'b option) \<Rightarrow> 'a list \<Rightarrow> py_error + 'b list" where
  "collect_rows f [] = Inr []"
| "collect_rows f (x # xs) =
     bind_err (f x) (\<lambda>row_opt.
     bind_err (collect_rows f xs) (\<lambda>rest.
     Inr (case row_opt of None \<Rightarrow> rest | Some r \<Rightarrow> r # rest)))"

definition matchup_data :: "dataframe \<Rightarrow> pystr \<Rightarrow> pystr \<Rightarrow> py_error + matchup_row list" where
  "matchup_data df deck ty =
     collect_rows (specific_row df deck ty) (all_faced_opponents_tuples df deck ty)"

text \<open>The rows pooled over the opponent's types.\<close>

definition case1_agg_games_total :: "dataframe \<Rightarrow> pystr \<Rightarrow> pystr \<Rightarrow> pystr \<Rightarrow> dataframe" where
  "case1_agg_games_total df deck ty opp_deck_name_agg =
     filter (\<lambda>r. opponent_deck r = opp_deck_name_agg) (focus_as_my_deck_games df deck ty)"

definition case2_agg_games_total :: "dataframe \<Rightarrow> pystr \<Rightarrow> pystr \<Rightarrow> pystr \<Rightarrow> dataframe" where
  "case2_agg_games_total df deck ty opp_deck_name_agg =
     filter (\<lambda>r. my_deck r = opp_deck_name_agg) (focus_as_opponent_deck_games df deck ty)"

definition total_games_vs_opp_deck_agg :: "dataframe \<Rightarrow> pystr \<Rightarrow> pystr \<Rightarrow> pystr \<Rightarrow> nat" where
  "total_games_vs_opp_deck_agg df deck ty on =
     length (case1_agg_games_total df deck ty on) + length (case2_agg_games_total df deck ty on)"

definition total_focus_wins_vs_opp_deck_agg :: "dataframe \<Rightarrow> pystr \<Rightarrow> pystr \<Rightarrow> pystr \<Rightarrow> nat" where
  "total_focus_wins_vs_opp_deck_agg df deck ty on =
     length (filter (\<lambda>r. result r = WIN) (case1_agg_games_total df deck ty on))
     + length (filter (\<lambda>r. result r = LOSS) (case2_agg_games_total df deck ty on))"

definition all_win_turns_agg :: "dataframe \<Rightarrow> pystr \<Rightarrow> pystr \<Rightarrow> pystr \<Rightarrow> rat list" where
  "all_win_turns_agg df deck ty on =
     finish_turns (filter (\<lambda>r. result r = WIN) (case1_agg_games_total df deck ty on))
     @ finish_turns (filter (\<lambda>r. result r = LOSS) (case2_agg_games_total df deck ty on))"

definition all_loss_turns_agg :: "dataframe \<Rightarrow> pystr \<Rightarrow> pystr \<Rightarrow> pystr \<Rightarrow> rat list" where
  "all_loss_turns_agg df deck ty on =
     finish_turns (filter (\<lambda>r. result r = LOSS) (case1_agg_games_total df deck ty on))
     @ finish_turns (filter (\<lambda>r. result r = WIN) (case2_agg_games_total df deck ty on))"

definition fd_first_games_agg_total_count :: "dataframe \<Rightarrow> pystr \<Rightarrow> pystr \<Rightarrow> pystr \<Rightarrow> nat" where
  "fd_first_games_agg_total_count df deck ty on =
     length (filter (\<lambda>r. first_second r = FIRST) (case1_agg_games_total df deck ty on))
     + length (filter (\<lambda>r. first_second r = SECOND) (case2_agg_games_total df deck ty on))"

definition fd_first_wins_agg_total :: "dataframe \<Rightarrow> pystr \<Rightarrow> pystr \<Rightarrow> pystr \<Rightarrow> nat" where
  "fd_first_wins_agg_total df deck ty on =
     length (filter (\<lambda>r. result r = WIN)
       (filter (\<lambda>r. first_second r = FIRST) (case1_agg_games_total df deck ty on)))
     + length (filter (\<lambda>r. result r = LOSS)
         (filter (\<lambda>r. first_second r = SECOND) (case2_agg_games_total df deck ty on)))"

definition fd_second_games_agg_total_count :: "dataframe \<Rightarrow> pystr \<Rightarrow> pystr \<Rightarrow> pystr \<Rightarrow> nat" where
  "fd_second_games_agg_total_count df deck ty on =
     length (filter (\<lambda>r. first_second r = SECOND) (case1_agg_games_total df deck ty on))
     + length (filter (\<lambda>r. first_second r = FIRST) (case2_agg_games_total df deck ty on))"

definition fd_second_wins_agg_total :: "dataframe \<Rightarrow> pystr \<Rightarrow> pystr \<Rightarrow> pystr \<Rightarrow> nat" where
  "fd_second_wins_agg_total df deck ty on =
     length (filter (\<lambda>r. result r = WIN)
       (filter (\<lambda>r. first_second r = SECOND) (case1_agg_games_total df deck ty on)))
     + length (filter (\<lambda>r. result r = LOSS)
         (filter (\<lambda>r. first_second r = FIRST) (case2_agg_games_total df deck ty on)))"

definition pooled_row ::
  "dataframe \<Rightarrow> pystr \<Rightarrow> pystr \<Rightarrow> pystr \<Rightarrow> py_error + matchup_row option" where
  "pooled_row df deck ty on =
     bind_err (percent_or_zero (total_focus_wins_vs_opp_deck_agg df deck ty on)
                 (total_games_vs_opp_deck_agg df deck ty on)) (\<lambda>win_rate_vs_opp_deck_agg.
     bind_err (percent_or_None (fd_first_wins_agg_total df deck ty on)
                 (fd_first_games_agg_total_count df deck ty on)) (\<lambda>win_rate_fd_first_agg_total.
     bind_err (percent_or_None (fd_second_wins_agg_total df deck ty on)
                 (fd_second_games_agg_total_count df deck ty on)) (\<lambda>win_rate_fd_second_agg_total.
     if total_games_vs_opp_deck_agg df deck ty on > 0
     then Inr (Some \<lparr>row_deck = on, row_type = ALL_TYPES_PLACEHOLDER,
       games_played = total_games_vs_opp_deck_agg df deck ty on,
       first_games = fd_first_games_agg_total_count df deck ty on,
       focus_wins = total_focus_wins_vs_opp_deck_agg df deck ty on,
       win_rate = win_rate_vs_opp_deck_agg,
       avg_win_turn = mean_or_None (all_win_turns_agg df deck ty on),
       avg_loss_turn = mean_or_None (all_loss_turns_agg df deck ty on),
       win_rate_first = win_rate_fd_first_agg_total,
       win_rate_second = win_rate_fd_second_agg_total\<rparr>)
     else Inr None)))"

definition agg_matchup_data ::
  "dataframe \<Rightarrow> pystr \<Rightarrow> pystr \<Rightarrow> matchup_row list \<Rightarrow> py_error + matchup_row list" where
  "agg_matchup_data df deck ty matchup_df_specific_types =
     collect_rows (pooled_row df deck ty) (unique (map row_deck matchup_df_specific_types))"

text \<open>
  The final table: both lists concatenated and sorted by opponent deck, then by
  \<open>__sort_type\<close> (\<open>'0_AllTypes'\<close> for the placeholder, \<open>'1_' + type\<close> otherwise). A sort on
  two columns is a stable sort in pandas, as \<open>sort_key\<close> is. Without any specific row
  there is no table.
\<close>

definition sort_type :: "pystr \<Rightarrow> pystr" where
  "sort_type x = (if x = ALL_TYPES_PLACEHOLDER then py ''0_AllTypes'' else py ''1_'' @ x)"

definition matchup_df_final :: "dataframe \<Rightarrow> pystr \<Rightarrow> pystr \<Rightarrow> py_error + matchup_row list" where
  "matchup_df_final df deck ty =
     bind_err (matchup_data df deck ty) (\<lambda>specific.
     if specific \<noteq> []
     then bind_err (agg_matchup_data df deck ty specific) (\<lambda>pooled.
          Inr (sort_key (\<lambda>r. (row_deck r, sort_type (row_type r))) (specific @ pooled)))
     else Inr [])"

section \<open>Focus analysis: the rows with a memo\<close>

definition memo_filter :: "row \<Rightarrow> bool" where
  "memo_filter r \<longleftrightarrow> strip (memo r) \<noteq> [] \<and> \<not> lower_eq_nan (memo r)"

definition memos_when_my_deck :: "dataframe \<Rightarrow> pystr \<Rightarrow> pystr \<Rightarrow> dataframe" where
  "memos_when_my_deck df deck ty = filter memo_filter (focus_as_my_deck_games df deck ty)"

definition memos_when_opponent_deck :: "dataframe \<Rightarrow> pystr \<Rightarrow> pystr \<Rightarrow> dataframe" where
  "memos_when_opponent_deck df deck ty =
     filter memo_filter (focus_as_opponent_deck_games df deck ty)"

text \<open>\<open>pd.concat([...]).drop_duplicates()\<close>: rows equal in every column are one row.\<close>

definition all_memo_games :: "dataframe \<Rightarrow> pystr \<Rightarrow> pystr \<Rightarrow> dataframe" where
  "all_memo_games df deck ty =
     unique (memos_when_my_deck df deck ty @ memos_when_opponent_deck df deck ty)"

text \<open>
  \<open>strftime('%Y-%m-%d')\<close>: four digits of the year (a pandas timestamp lies between the
  years 1677 and 2262), two of the month, two of the day; \<open>NaT\<close> stays missing.
\<close>

definition digit :: "nat \<Rightarrow> nat" where
  "digit n = 0x30 + n mod 10"

definition strftime_ymd :: "timestamp \<Rightarrow> pystr" where
  "strftime_ymd t =
     [digit (year t div 1000), digit (year t div 100), digit (year t div 10), digit (year t),
      0x2D, digit (month t div 10), digit (month t),
      0x2D, digit (day t div 10), digit (day t)]"

definition render_date :: "row \<Rightarrow> pystr option match_record" where
  "render_date r =
     \<lparr>season = season r, date = map_option strftime_ymd (date r), environment = environment r,
      my_deck = my_deck r, my_deck_type = my_deck_type r, opponent_deck = opponent_deck r,
      opponent_deck_type = opponent_deck_type r, first_second = first_second r,
      result = result r, finish_turn = finish_turn r, memo = memo r\<rparr>"

definition df_memo_display :: "dataframe \<Rightarrow> pystr \<Rightarrow> pystr \<Rightarrow> pystr option match_record list" where
  "df_memo_display df deck ty = map render_date (all_memo_games df deck ty)"

text \<open>
  \<open>sort_values(by=col, ascending=False)\<close> with \<open>na_position='last'\<close>, on one column: the
  rows with a value come first, by descending value, and the rows without one follow in
  row order. pandas sorts the values with its default kind, quicksort, which fixes no
  order among rows of equal value; the rows of equal value are listed here in row order,
  which is one of the outcomes the call allows.
\<close>

definition sort_values_desc :: "('a \<Rightarrow> 'k::linorder option) \<Rightarrow> 'a list \<Rightarrow> 'a list" where
  "sort_values_desc col rows =
     map snd (rev (sort_key fst (rev (List.map_filter (\<lambda>r. map_option (\<lambda>k. (k, r)) (col r)) rows))))
     @ filter (\<lambda>r. col r = None) rows"


definition memo_table :: "dataframe \<Rightarrow> pystr \<Rightarrow> pystr \<Rightarrow> pystr option match_record list" where
  "memo_table df deck ty =
     (if all_memo_games df deck ty \<noteq> [] then sort_values_desc date (df_memo_display df deck ty)
      else [])"

section \<open>Discovery of deck names and types\<close>

definition get_all_analyzable_deck_names :: "dataframe \<Rightarrow> pystr list" where
  "get_all_analyzable_deck_names df =
     (let my_decks = unique (filter (\<lambda>d. d \<noteq> []) (map my_deck df));
          opponent_decks = unique (filter (\<lambda>d. d \<noteq> []) (map opponent_deck df));
          all_decks_set = remdups (my_decks @ opponent_decks)
      in sort (filter (\<lambda>d. d \<noteq> [] \<and> \<not> lower_eq_nan d) all_decks_set))"

definition get_all_types_for_archetype :: "dataframe \<Rightarrow> pystr \<Rightarrow> pystr list" where
  "get_all_types_for_archetype df deck_name =
     (if deck_name = [] \<or> deck_name = SELECT_PLACEHOLDER then [ALL_TYPES_PLACEHOLDER]
      else
        let my_deck_matches = filter (\<lambda>r. my_deck r = deck_name) df;
            opponent_deck_matches = filter (\<lambda>r. opponent_deck r = deck_name) df;
            types = remdups (
              (if my_deck_matches \<noteq> []
               then filter (\<lambda>t. t \<noteq> []) (map my_deck_type my_deck_matches) else [])
              @ (if opponent_deck_matches \<noteq> []
                 then filter (\<lambda>t. t \<noteq> []) (map opponent_deck_type opponent_deck_matches)
                 else []));
            valid_types = sort (filter (\<lambda>t. t \<noteq> [] \<and> \<not> lower_eq_nan t) types)
        in ALL_TYPES_PLACEHOLDER # valid_types)"

section \<open>The overview of all deck archetypes\<close>

text \<open>\<open>display_general_deck_performance\<close>: the figures of one deck \<open>deck_a_name\<close>.\<close>

definition games_as_my_deck_df :: "dataframe \<Rightarrow> pystr \<Rightarrow> dataframe" where
  "games_as_my_deck_df df a = filter (\<lambda>r. my_deck r = a) df"

definition games_as_opponent_deck_df :: "dataframe \<Rightarrow> pystr \<Rightarrow> dataframe" where
  "games_as_opponent_deck_df df a = filter (\<lambda>r. opponent_deck r = a) df"

definition wins_as_my_deck :: "dataframe \<Rightarrow> pystr \<Rightarrow> nat" where
  "wins_as_my_deck df a = length (filter (\<lambda>r. result r = WIN) (games_as_my_deck_df df a))"

definition wins_as_opponent_deck :: "dataframe \<Rightarrow> pystr \<Rightarrow> nat" where
  "wins_as_opponent_deck df a =
     length (filter (\<lambda>r. result r = LOSS) (games_as_opponent_deck_df df a))"

definition total_appearances_deck_a :: "dataframe \<Rightarrow> pystr \<Rightarrow> nat" where
  "total_appearances_deck_a df a =
     length (games_as_my_deck_df df a) + length (games_as_opponent_deck_df df a)"

definition total_wins_deck_a :: "dataframe \<Rightarrow> pystr \<Rightarrow> nat" where
  "total_wins_deck_a df a = wins_as_my_deck df a + wins_as_opponent_deck df a"

definition total_losses_deck_a :: "dataframe \<Rightarrow> pystr \<Rightarrow> nat" where
  "total_losses_deck_a df a = total_appearances_deck_a df a - total_wins_deck_a df a"

definition simple_overall_win_rate_deck_a :: "dataframe \<Rightarrow> pystr \<Rightarrow> py_error + rat" where
  "simple_overall_win_rate_deck_a df a =
     percent_or_zero (total_wins_deck_a df a) (total_appearances_deck_a df a)"

definition deck_a_first_as_my :: "dataframe \<Rightarrow> pystr \<Rightarrow> dataframe" where
  "deck_a_first_as_my df a = filter (\<lambda>r. first_second r = FIRST) (games_as_my_deck_df df a)"

definition deck_a_first_as_opp :: "dataframe \<Rightarrow> pystr \<Rightarrow> dataframe" where
  "deck_a_first_as_opp df a =
     filter (\<lambda>r. first_second r = SECOND) (games_as_opponent_deck_df df a)"

definition total_games_deck_a_first :: "dataframe \<Rightarrow> pystr \<Rightarrow> nat" where
  "total_games_deck_a_first df a =
     length (deck_a_first_as_my df a) + length (deck_a_first_as_opp df a)"

definition wins_deck_a_first :: "dataframe \<Rightarrow> pystr \<Rightarrow> nat" where
  "wins_deck_a_first df a =
     length (filter (\<lambda>r. result r = WIN) (deck_a_first_as_my df a))
     + length (filter (\<lambda>r. result r = LOSS) (deck_a_first_as_opp df a))"

definition win_rate_deck_a_first :: "dataframe \<Rightarrow> pystr \<Rightarrow> py_error + rat option" where
  "win_rate_deck_a_first df a =
     percent_or_None (wins_deck_a_first df a) (total_games_deck_a_first df a)"

definition deck_a_second_as_my :: "dataframe \<Rightarrow> pystr \<Rightarrow> dataframe" where
  "deck_a_second_as_my df a = filter (\<lambda>r. first_second r = SECOND) (games_as_my_deck_df df a)"

definition deck_a_second_as_opp :: "dataframe \<Rightarrow> pystr \<Rightarrow> dataframe" where
  "deck_a_second_as_opp df a =
     filter (\<lambda>r. first_second r = FIRST) (games_as_opponent_deck_df df a)"

definition total_games_deck_a_second :: "dataframe \<Rightarrow> pystr \<Rightarrow> nat" where
  "total_games_deck_a_second df a =
     length (deck_a_second_as_my df a) + length (deck_a_second_as_opp df a)"

definition wins_deck_a_second :: "dataframe \<Rightarrow> pystr \<Rightarrow> nat" where
  "wins_deck_a_second df a =
     length (filter (\<lambda>r. result r = WIN) (deck_a_second_as_my df a))
     + length (filter (\<lambda>r. result r = LOSS) (deck_a_second_as_opp df a))"

definition win_rate_deck_a_second :: "dataframe \<Rightarrow> pystr \<Rightarrow> py_error + rat option" where
  "win_rate_deck_a_second df a =
     percent_or_None (wins_deck_a_second df a) (total_games_deck_a_second df a)"

text \<open>
  The opponents of \<open>deck_a_name\<close>. \<open>unique_opponents_faced_by_deck_a\<close> is a Python set; it
  is kept as the list of its members in order of first appearance (the source iterates
  it in hash order, and only sums over it).
\<close>

definition games_involving_deck_a :: "dataframe \<Rightarrow> pystr \<Rightarrow> dataframe" where
  "games_involving_deck_a df a = filter (\<lambda>r. my_deck r = a \<or> opponent_deck r = a) df"

definition opponent_for_this_game :: "pystr \<Rightarrow> row \<Rightarrow> pystr option" where
  "opponent_for_this_game a r =
     (if my_deck r = a then Some (opponent_deck r)
      else if opponent_deck r = a then Some (my_deck r)
      else None)"

definition opponent_counted :: "pystr \<Rightarrow> pystr option \<Rightarrow> bool" where
  "opponent_counted a opp \<longleftrightarrow>
     (case opp of None \<Rightarrow> False
      | Some b \<Rightarrow> b \<noteq> [] \<and> b \<noteq> a \<and> strip b \<noteq> [] \<and> \<not> lower_eq_nan (strip b))"

definition unique_opponents_faced_by_deck_a :: "dataframe \<Rightarrow> pystr \<Rightarrow> pystr list" where
  "unique_opponents_faced_by_deck_a df a =
     unique (List.map_filter
       (\<lambda>r. if opponent_counted a (opponent_for_this_game a r)
            then opponent_for_this_game a r else None)
       (games_involving_deck_a df a))"

definition a_vs_opp_my_games :: "dataframe \<Rightarrow> pystr \<Rightarrow> pystr \<Rightarrow> dataframe" where
  "a_vs_opp_my_games df a b =
     filter (\<lambda>r. my_deck r = a \<and> opponent_deck r = b) (games_involving_deck_a df a)"

definition a_vs_opp_opponent_games :: "dataframe \<Rightarrow> pystr \<Rightarrow> pystr \<Rightarrow> dataframe" where
  "a_vs_opp_opponent_games df a b =
     filter (\<lambda>r. opponent_deck r = a \<and> my_deck r = b) (games_involving_deck_a df a)"

definition total_games_vs_specific_opponent :: "dataframe \<Rightarrow> pystr \<Rightarrow> pystr \<Rightarrow> nat" where
  "total_games_vs_specific_opponent df a b =
     length (a_vs_opp_my_games df a b) + length (a_vs_opp_opponent_games df a b)"

definition total_wins_for_a_vs_specific_opponent :: "dataframe \<Rightarrow> pystr \<Rightarrow> pystr \<Rightarrow> nat" where
  "total_wins_for_a_vs_specific_opponent df a b =
     length (filter (\<lambda>r. result r = WIN) (a_vs_opp_my_games df a b))
     + length (filter (\<lambda>r. result r = LOSS) (a_vs_opp_opponent_games df a b))"

definition matchup_wr :: "dataframe \<Rightarrow> pystr \<Rightarrow> pystr \<Rightarrow> py_error + rat option" where
  "matchup_wr df a b =
     (if total_games_vs_specific_opponent df a b > 0
      then bind_err (percent (total_wins_for_a_vs_specific_opponent df a b)
                       (total_games_vs_specific_opponent df a b)) (\<lambda>wr. Inr (Some wr))
      else Inr None)"

definition matchup_win_rates_for_deck_a :: "dataframe \<Rightarrow> pystr \<Rightarrow> py_error + rat list" where
  "matchup_win_rates_for_deck_a df a =
     (if unique_opponents_faced_by_deck_a df a \<noteq> []
      then collect_rows (matchup_wr df a) (unique_opponents_faced_by_deck_a df a)
      else Inr [])"

definition avg_matchup_wr_deck_a :: "dataframe \<Rightarrow> pystr \<Rightarrow> py_error + rat option" where
  "avg_matchup_wr_deck_a df a =
     bind_err (matchup_win_rates_for_deck_a df a) (\<lambda>rates. Inr (mean_or_None rates))"

text \<open>
  A row of the overview. The column of appearances is the string
  \<open>"{appearances} (first: {first games})"\<close>, kept as two numbers.
\<close>

record overview_row =
  deck_archetype :: pystr
  appearances :: nat
  appearances_first :: nat
  total_wins :: nat
  total_losses :: nat
  overall_win_rate :: rat
  avg_matchup_win_rate :: "rat option"
  first_win_rate :: "rat option"
  second_win_rate :: "rat option"

definition overview_entry :: "dataframe \<Rightarrow> pystr \<Rightarrow> py_error + overview_row option" where
  "overview_entry df a =
     (if a = [] then Inr None
      else
        bind_err (simple_overall_win_rate_deck_a df a) (\<lambda>overall.
        bind_err (win_rate_deck_a_first df a) (\<lambda>wr_first.
        bind_err (win_rate_deck_a_second df a) (\<lambda>wr_second.
        bind_err (avg_matchup_wr_deck_a df a) (\<lambda>avg.
        if total_appearances_deck_a df a > 0
        then Inr (Some \<lparr>deck_archetype = a,
          appearances = total_appearances_deck_a df a,
          appearances_first = total_games_deck_a_first df a,
          total_wins = total_wins_deck_a df a,
          total_losses = total_losses_deck_a df a,
          overall_win_rate = overall,
          avg_matchup_win_rate = avg,
          first_win_rate = wr_first,
          second_win_rate = wr_second\<rparr>)
        else Inr None)))))"

definition general_performance_data :: "dataframe \<Rightarrow> py_error + overview_row list" where
  "general_performance_data df =
     collect_rows (overview_entry df) (get_all_analyzable_deck_names df)"

text \<open>The table shown: the rows sorted by the average matchup win rate, descending.\<close>

definition display_general_deck_performance :: "dataframe \<Rightarrow> py_error + overview_row list" where
  "display_general_deck_performance df =
     bind_err (general_performance_data df) (\<lambda>rows.
     Inr (sort_values_desc avg_matchup_win_rate rows))"


section \<open>The analysis section\<close>

text \<open>
  What the focus analysis computes: the overall figures, the matchup table and the rows
  with a memo.
\<close>

record focus_report =
  report_appearances :: nat
  report_wins :: nat
  report_losses :: nat
  report_win_rate :: rat
  report_avg_win_turn :: "rat option"
  report_first_games :: nat
  report_first_wins :: nat
  report_first_win_rate :: "rat option"
  report_second_games :: nat
  report_second_wins :: nat
  report_second_win_rate :: "rat option"
  report_matchups :: "matchup_row list"
  report_memos :: "pystr option match_record list"

text \<open>\<open>None\<close>: no record of the focus deck, a warning is shown and nothing is computed.\<close>

definition focus_analysis :: "dataframe \<Rightarrow> pystr \<Rightarrow> pystr \<Rightarrow> py_error + focus_report option" where
  "focus_analysis df deck ty =
     (if total_appearances df deck ty = 0 then Inr None
      else
        bind_err (win_rate_for_focus_deck df deck ty) (\<lambda>wr.
        bind_err (win_rate_focus_first df deck ty) (\<lambda>wr_first.
        bind_err (win_rate_focus_second df deck ty) (\<lambda>wr_second.
        bind_err (matchup_df_final df deck ty) (\<lambda>matchups.
        Inr (Some \<lparr>report_appearances = total_appearances df deck ty,
          report_wins = total_wins_for_focus_deck df deck ty,
          report_losses = total_losses_for_focus_deck df deck ty,
          report_win_rate = wr,
          report_avg_win_turn = avg_win_finish_turn_val df deck ty,
          report_first_games = total_games_focus_first df deck ty,
          report_first_wins = wins_focus_first df deck ty,
          report_first_win_rate = wr_first,
          report_second_games = total_games_focus_second df deck ty,
          report_second_wins = wins_focus_second df deck ty,
          report_second_win_rate = wr_second,
          report_matchups = matchups,
          report_memos = memo_table df deck ty\<rparr>))))))"




section \<open>Example records\<close>

text \<open>Records without season, date and environment, for the concrete cases below.\<close>

definition game ::
  "pystr \<Rightarrow> pystr \<Rightarrow> pystr \<Rightarrow> pystr \<Rightarrow> pystr \<Rightarrow> pystr \<Rightarrow> int option \<Rightarrow> pystr \<Rightarrow> row" where
  "game md mt od ot fs res turn mm =
     \<lparr>season = [], date = None, environment = [], my_deck = md, my_deck_type = mt,
      opponent_deck = od, opponent_deck_type = ot, first_second = fs, result = res,
      finish_turn = turn, memo = mm\<rparr>"

text \<open>The two records of the scenario of the specification.\<close>

definition scenario :: dataframe where
  "scenario =
     [game (py ''Alpha'') (py ''Red'') (py ''Beta'') (py ''Blue'') FIRST WIN (Some 5) [],
      game (py ''Beta'') (py ''Blue'') (py ''Alpha'') (py ''Red'') SECOND LOSS (Some 7) []]"

text \<open>A mirror match: the same deck and type on both sides of one record.\<close>

definition mirror_game :: row where
  "mirror_game = game (py ''Alpha'') (py ''Red'') (py ''Alpha'') (py ''Red'') FIRST WIN None []"

text \<open>
  Alpha beats a deck whose name is a single space and loses to Beta.
\<close>

definition blank_opponent_games :: dataframe where
  "blank_opponent_games =
     [game (py ''Alpha'') [] (py '' '') [] FIRST WIN None [],
      game (py ''Alpha'') [] (py ''Beta'') [] FIRST LOSS None []]"

text \<open>Alpha meets Beta of type Blue once and Beta of type Green twice.\<close>

definition two_types_games :: dataframe where
  "two_types_games =
     [game (py ''Alpha'') (py ''Red'') (py ''Beta'') (py ''Blue'') FIRST WIN (Some 5) [],
      game (py ''Alpha'') (py ''Red'') (py ''Beta'') (py ''Green'') SECOND LOSS None [],
      game (py ''Beta'') (py ''Green'') (py ''Alpha'') (py ''Red'') FIRST WIN None []]"

text \<open>
  Records with a missing deck name (\<open>nan\<close> after \<open>astype(str)\<close>), an empty one and a
  missing type.
\<close>

definition nan_name_games :: dataframe where
  "nan_name_games =
     [game (py ''nan'') [] (py ''Alpha'') (py ''Red'') FIRST WIN None [],
      game (py ''Alpha'') (py ''NaN'') [] [] FIRST WIN None [],
      game (py ''Alpha'') (py ''Red'') (py ''Beta'') [] SECOND LOSS None []]"

text \<open>Two records that agree in every column, both with a memo.\<close>

definition duplicate_memo_games :: dataframe where
  "duplicate_memo_games =
     [game (py ''Alpha'') (py ''Red'') (py ''Beta'') (py ''Blue'') FIRST WIN (Some 5) (py ''close game''),
      game (py ''Alpha'') (py ''Red'') (py ''Beta'') (py ''Blue'') FIRST WIN (Some 5) (py ''close game'')]"

text \<open>
  Dated records: one without date, one with a blank memo, one mirror match.
\<close>

definition dated_game :: "timestamp option \<Rightarrow> pystr \<Rightarrow> pystr \<Rightarrow> pystr \<Rightarrow> row" where
  "dated_game d md od mm =
     \<lparr>season = [], date = d, environment = [], my_deck = md, my_deck_type = [],
      opponent_deck = od, opponent_deck_type = [], first_second = FIRST, result = WIN,
      finish_turn = None, memo = mm\<rparr>"

definition memo_games :: dataframe where
  "memo_games =
     [dated_game None (py ''Alpha'') (py ''Beta'') (py ''undated''),
      dated_game (Some (Timestamp 2024 5 1 0)) (py ''Alpha'') (py ''Beta'') (py ''first''),
      dated_game (Some (Timestamp 2024 11 20 0)) (py ''Beta'') (py ''Alpha'') (py ''second''),
      dated_game (Some (Timestamp 2024 12 24 0)) (py ''Alpha'') (py ''Beta'') (py ''  ''),
      dated_game (Some (Timestamp 2025 1 3 0)) (py ''Alpha'') (py ''Alpha'') (py ''mirror'')]"

text \<open>
  A record whose result cell was blank: the loader turns every cell of the column into a
  string with \<open>astype(str)\<close>, which renders a missing value as \<open>nan\<close>.
\<close>

definition blank_result_games :: dataframe where
  "blank_result_games = [game (py ''Alpha'') [] (py ''Beta'') [] FIRST (py ''nan'') None []]"




section \<open>Basic facts\<close>

lemmas str_defs = py_def WIN_def LOSS_def FIRST_def SECOND_def ALL_TYPES_PLACEHOLDER_def

lemmas focus_defs = focus_as_my_deck_games_def focus_as_opponent_deck_games_def
  total_appearances_def wins_when_focus_is_my_deck_df_def wins_when_focus_is_opponent_deck_df_def
  total_wins_for_focus_deck_def total_losses_for_focus_deck_def
  focus_first_my_def focus_first_opp_def total_games_focus_first_def wins_focus_first_def
  focus_second_my_def focus_second_opp_def total_games_focus_second_def wins_focus_second_def

lemmas overview_defs = games_as_my_deck_df_def games_as_opponent_deck_df_def wins_as_my_deck_def
  wins_as_opponent_deck_def total_appearances_deck_a_def total_wins_deck_a_def
  total_losses_deck_a_def deck_a_first_as_my_def deck_a_first_as_opp_def
  total_games_deck_a_first_def wins_deck_a_first_def deck_a_second_as_my_def
  deck_a_second_as_opp_def total_games_deck_a_second_def wins_deck_a_second_def

lemmas matchup_defs = case1_games_def case2_games_def games_played_count_def
  focus_deck_wins_count_def focus_deck_win_turns_vs_opp_def focus_deck_loss_turns_vs_opp_def
  fd_vs_opp_first_games_count_def fd_vs_opp_first_wins_count_def
  fd_vs_opp_second_games_count_def fd_vs_opp_second_wins_count_def

lemmas pooled_defs = case1_agg_games_total_def case2_agg_games_total_def
  total_games_vs_opp_deck_agg_def total_focus_wins_vs_opp_deck_agg_def
  all_win_turns_agg_def all_loss_turns_agg_def fd_first_games_agg_total_count_def
  fd_first_wins_agg_total_def fd_second_games_agg_total_count_def fd_second_wins_agg_total_def

lemmas eval_defs = scenario_def game_def str_defs type_selected_def
  cond_my_deck_focus_def cond_opponent_deck_focus_def

lemma bind_err_simps [simp]:
  "bind_err (Inr x) f = f x" "bind_err (Inl e) f = Inl e"
  by (simp_all add: bind_err_def)

lemma percent_pos: "b > 0 \<Longrightarrow> percent a b = Inr (of_nat a / of_nat b * 100)"
  by (simp add: percent_def truediv_def)

lemma percent_or_None_eq:
  "percent_or_None a b = Inr (if b > 0 then Some (of_nat a / of_nat b * 100) else None)"
  by (simp add: percent_or_None_def percent_pos)

lemma percent_or_zero_eq:
  "percent_or_zero a b = Inr (if b > 0 then of_nat a / of_nat b * 100 else 0)"
  by (simp add: percent_or_zero_def percent_pos)

lemma collect_rows_Inr:
  "(\<And>x. x \<in> set xs \<Longrightarrow> f x = Inr (g x)) \<Longrightarrow> collect_rows f xs = Inr (List.map_filter g xs)"
  by (induction xs) (auto simp: List.map_filter_simps split: option.splits)

lemma wins_le_appearances:
  "total_wins_for_focus_deck df deck ty \<le> total_appearances df deck ty"
  unfolding total_wins_for_focus_deck_def total_appearances_def
    wins_when_focus_is_my_deck_df_def wins_when_focus_is_opponent_deck_df_def
  by (intro add_mono length_filter_le)

lemma overview_wins_le: "total_wins_deck_a df a \<le> total_appearances_deck_a df a"
  unfolding total_wins_deck_a_def total_appearances_deck_a_def wins_as_my_deck_def
    wins_as_opponent_deck_def
  by (intro add_mono length_filter_le)

section \<open>The role flip\<close>

text \<open>
  C1. Let the key \<open>(deck, ty)\<close> match the opponent side of a record \<open>R\<close>: \<open>opponent_deck\<close> is
  \<open>deck\<close>, and \<open>ty\<close> is the all-types placeholder or equals \<open>opponent_deck_type\<close>. Then,
  wherever \<open>R\<close> stands in the data frame, it is in the subset of the games in which the
  focus deck is the opponent, and what it adds to the figures of the key is read with
  result and seat negated: a win when the recorded result is the loss, a game (and a
  win) of the first seat when the recorded seat is the second, and the other way round.
  The last summand of each line is what \<open>R\<close> adds when the key matches its own side as
  well. The same holds for the type-blind figures of the overview.
\<close>

theorem role_flip_as_opponent:
  assumes "cond_opponent_deck_focus deck ty R"
  shows "R \<in> set (focus_as_opponent_deck_games (df1 @ R # df2) deck ty)
    \<and> total_appearances (df1 @ R # df2) deck ty
        = total_appearances (df1 @ df2) deck ty + 1 + of_bool (cond_my_deck_focus deck ty R)
    \<and> total_wins_for_focus_deck (df1 @ R # df2) deck ty
        = total_wins_for_focus_deck (df1 @ df2) deck ty + of_bool (result R = LOSS)
          + of_bool (cond_my_deck_focus deck ty R \<and> result R = WIN)
    \<and> total_losses_for_focus_deck (df1 @ R # df2) deck ty
        = total_losses_for_focus_deck (df1 @ df2) deck ty + of_bool (result R \<noteq> LOSS)
          + of_bool (cond_my_deck_focus deck ty R \<and> result R \<noteq> WIN)
    \<and> total_games_focus_first (df1 @ R # df2) deck ty
        = total_games_focus_first (df1 @ df2) deck ty + of_bool (first_second R = SECOND)
          + of_bool (cond_my_deck_focus deck ty R \<and> first_second R = FIRST)
    \<and> wins_focus_first (df1 @ R # df2) deck ty
        = wins_focus_first (df1 @ df2) deck ty
          + of_bool (first_second R = SECOND \<and> result R = LOSS)
          + of_bool (cond_my_deck_focus deck ty R \<and> first_second R = FIRST \<and> result R = WIN)
    \<and> total_games_focus_second (df1 @ R # df2) deck ty
        = total_games_focus_second (df1 @ df2) deck ty + of_bool (first_second R = FIRST)
          + of_bool (cond_my_deck_focus deck ty R \<and> first_second R = SECOND)
    \<and> wins_focus_second (df1 @ R # df2) deck ty
        = wins_focus_second (df1 @ df2) deck ty
          + of_bool (first_second R = FIRST \<and> result R = LOSS)
          + of_bool (cond_my_deck_focus deck ty R \<and> first_second R = SECOND \<and> result R = WIN)
    \<and> R \<in> set (games_as_opponent_deck_df (df1 @ R # df2) deck)
    \<and> total_appearances_deck_a (df1 @ R # df2) deck
        = total_appearances_deck_a (df1 @ df2) deck + 1 + of_bool (my_deck R = deck)
    \<and> total_wins_deck_a (df1 @ R # df2) deck
        = total_wins_deck_a (df1 @ df2) deck + of_bool (result R = LOSS)
          + of_bool (my_deck R = deck \<and> result R = WIN)
    \<and> total_losses_deck_a (df1 @ R # df2) deck
        = total_losses_deck_a (df1 @ df2) deck + of_bool (result R \<noteq> LOSS)
          + of_bool (my_deck R = deck \<and> result R \<noteq> WIN)
    \<and> total_games_deck_a_first (df1 @ R # df2) deck
        = total_games_deck_a_first (df1 @ df2) deck + of_bool (first_second R = SECOND)
          + of_bool (my_deck R = deck \<and> first_second R = FIRST)
    \<and> wins_deck_a_first (df1 @ R # df2) deck
        = wins_deck_a_first (df1 @ df2) deck
          + of_bool (first_second R = SECOND \<and> result R = LOSS)
          + of_bool (my_deck R = deck \<and> first_second R = FIRST \<and> result R = WIN)
    \<and> total_games_deck_a_second (df1 @ R # df2) deck
        = total_games_deck_a_second (df1 @ df2) deck + of_bool (first_second R = FIRST)
          + of_bool (my_deck R = deck \<and> first_second R = SECOND)
    \<and> wins_deck_a_second (df1 @ R # df2) deck
        = wins_deck_a_second (df1 @ df2) deck
          + of_bool (first_second R = FIRST \<and> result R = LOSS)
          + of_bool (my_deck R = deck \<and> first_second R = SECOND \<and> result R = WIN)"
proof -
  from assms have opp: "opponent_deck R = deck"
    by (simp add: cond_opponent_deck_focus_def)
  have le: "total_wins_for_focus_deck (df1 @ df2) deck ty \<le> total_appearances (df1 @ df2) deck ty"
    by (rule wins_le_appearances)
  have le': "total_wins_deck_a (df1 @ df2) deck \<le> total_appearances_deck_a (df1 @ df2) deck"
    by (rule overview_wins_le)
  have f1: "R \<in> set (focus_as_opponent_deck_games (df1 @ R # df2) deck ty)"
    using assms by (simp add: focus_defs)
  have f2: "total_appearances (df1 @ R # df2) deck ty
        = total_appearances (df1 @ df2) deck ty + 1 + of_bool (cond_my_deck_focus deck ty R)"
    using assms by (simp add: focus_defs)
  have f3: "total_wins_for_focus_deck (df1 @ R # df2) deck ty
        = total_wins_for_focus_deck (df1 @ df2) deck ty + of_bool (result R = LOSS)
          + of_bool (cond_my_deck_focus deck ty R \<and> result R = WIN)"
    using assms by (simp add: focus_defs)
  have f4: "total_losses_for_focus_deck (df1 @ R # df2) deck ty
        = total_losses_for_focus_deck (df1 @ df2) deck ty + of_bool (result R \<noteq> LOSS)
          + of_bool (cond_my_deck_focus deck ty R \<and> result R \<noteq> WIN)"
    unfolding total_losses_for_focus_deck_def f2 f3 using le by (auto simp: of_bool_def)
  have f5: "total_games_focus_first (df1 @ R # df2) deck ty
        = total_games_focus_first (df1 @ df2) deck ty + of_bool (first_second R = SECOND)
          + of_bool (cond_my_deck_focus deck ty R \<and> first_second R = FIRST)"
    using assms by (simp add: focus_defs)
  have f6: "wins_focus_first (df1 @ R # df2) deck ty
        = wins_focus_first (df1 @ df2) deck ty
          + of_bool (first_second R = SECOND \<and> result R = LOSS)
          + of_bool (cond_my_deck_focus deck ty R \<and> first_second R = FIRST \<and> result R = WIN)"
    using assms by (simp add: focus_defs)
  have f7: "total_games_focus_second (df1 @ R # df2) deck ty
        = total_games_focus_second (df1 @ df2) deck ty + of_bool (first_second R = FIRST)
          + of_bool (cond_my_deck_focus deck ty R \<and> first_second R = SECOND)"
    using assms by (simp add: focus_defs)
  have f8: "wins_focus_second (df1 @ R # df2) deck ty
        = wins_focus_second (df1 @ df2) deck ty
          + of_bool (first_second R = FIRST \<and> result R = LOSS)
          + of_bool (cond_my_deck_focus deck ty R \<and> first_second R = SECOND \<and> result R = WIN)"
    using assms by (simp add: focus_defs)
  have g1: "R \<in> set (games_as_opponent_deck_df (df1 @ R # df2) deck)"
    using opp by (simp add: overview_defs)
  have g2: "total_appearances_deck_a (df1 @ R # df2) deck
        = total_appearances_deck_a (df1 @ df2) deck + 1 + of_bool (my_deck R = deck)"
    using opp by (simp add: overview_defs)
  have g3: "total_wins_deck_a (df1 @ R # df2) deck
        = total_wins_deck_a (df1 @ df2) deck + of_bool (result R = LOSS)
          + of_bool (my_deck R = deck \<and> result R = WIN)"
    using opp by (simp add: overview_defs)
  have g4: "total_losses_deck_a (df1 @ R # df2) deck
        = total_losses_deck_a (df1 @ df2) deck + of_bool (result R \<noteq> LOSS)
          + of_bool (my_deck R = deck \<and> result R \<noteq> WIN)"
    unfolding total_losses_deck_a_def g2 g3 using le' by (auto simp: of_bool_def)
  have g5: "total_games_deck_a_first (df1 @ R # df2) deck
        = total_games_deck_a_first (df1 @ df2) deck + of_bool (first_second R = SECOND)
          + of_bool (my_deck R = deck \<and> first_second R = FIRST)"
    using opp by (simp add: overview_defs)
  have g6: "wins_deck_a_first (df1 @ R # df2) deck
        = wins_deck_a_first (df1 @ df2) deck
          + of_bool (first_second R = SECOND \<and> result R = LOSS)
          + of_bool (my_deck R = deck \<and> first_second R = FIRST \<and> result R = WIN)"
    using opp by (simp add: overview_defs)
  have g7: "total_games_deck_a_second (df1 @ R # df2) deck
        = total_games_deck_a_second (df1 @ df2) deck + of_bool (first_second R = FIRST)
          + of_bool (my_deck R = deck \<and> first_second R = SECOND)"
    using opp by (simp add: overview_defs)
  have g8: "wins_deck_a_second (df1 @ R # df2) deck
        = wins_deck_a_second (df1 @ df2) deck
          + of_bool (first_second R = FIRST \<and> result R = LOSS)
          + of_bool (my_deck R = deck \<and> first_second R = SECOND \<and> result R = WIN)"
    using opp by (simp add: overview_defs)
  from f1 f2 f3 f4 f5 f6 f7 f8 g1 g2 g3 g4 g5 g6 g7 g8 show ?thesis
    by (intro conjI)
qed

text \<open>
  The second record of the scenario has Alpha on the opponent side, with the second seat
  and the loss recorded: for Alpha it is a win from the first seat.
\<close>

theorem role_flip_as_opponent_witness:
  "cond_opponent_deck_focus (py ''Alpha'') ALL_TYPES_PLACEHOLDER
      (game (py ''Beta'') (py ''Blue'') (py ''Alpha'') (py ''Red'') SECOND LOSS (Some 7) [])
   \<and> total_appearances scenario (py ''Alpha'') ALL_TYPES_PLACEHOLDER = 2
   \<and> total_wins_for_focus_deck scenario (py ''Alpha'') ALL_TYPES_PLACEHOLDER = 2
   \<and> total_losses_for_focus_deck scenario (py ''Alpha'') ALL_TYPES_PLACEHOLDER = 0
   \<and> wins_focus_first scenario (py ''Alpha'') ALL_TYPES_PLACEHOLDER = 2
   \<and> total_games_focus_second scenario (py ''Alpha'') ALL_TYPES_PLACEHOLDER = 0
   \<and> total_wins_deck_a scenario (py ''Alpha'') = 2"
proof -
  have h: "cond_opponent_deck_focus (py ''Alpha'') ALL_TYPES_PLACEHOLDER
      (game (py ''Beta'') (py ''Blue'') (py ''Alpha'') (py ''Red'') SECOND LOSS (Some 7) [])"
    by (simp add: eval_defs)
  show ?thesis
    using h role_flip_as_opponent [OF h,
      of "[game (py ''Alpha'') (py ''Red'') (py ''Beta'') (py ''Blue'') FIRST WIN (Some 5) []]" "[]"]
    by (simp add: focus_defs overview_defs eval_defs)
qed

section \<open>The scenario of the specification\<close>

text \<open>
  The rows of the matchup table in closed form: no division fails, and a row exists
  exactly when games were played.
\<close>

lemma specific_row_eq:
  "specific_row df deck ty opp_tuple =
     Inr (if games_played_count df deck ty (fst opp_tuple) (snd opp_tuple) > 0
      then Some \<lparr>row_deck = fst opp_tuple, row_type = snd opp_tuple,
          games_played = games_played_count df deck ty (fst opp_tuple) (snd opp_tuple),
          first_games = fd_vs_opp_first_games_count df deck ty (fst opp_tuple) (snd opp_tuple),
          focus_wins = focus_deck_wins_count df deck ty (fst opp_tuple) (snd opp_tuple),
          win_rate = of_nat (focus_deck_wins_count df deck ty (fst opp_tuple) (snd opp_tuple))
             / of_nat (games_played_count df deck ty (fst opp_tuple) (snd opp_tuple)) * 100,
          avg_win_turn = mean_or_None (focus_deck_win_turns_vs_opp df deck ty (fst opp_tuple) (snd opp_tuple)),
          avg_loss_turn = mean_or_None (focus_deck_loss_turns_vs_opp df deck ty (fst opp_tuple) (snd opp_tuple)),
          win_rate_first = (if fd_vs_opp_first_games_count df deck ty (fst opp_tuple) (snd opp_tuple) > 0
             then Some (of_nat (fd_vs_opp_first_wins_count df deck ty (fst opp_tuple) (snd opp_tuple))
               / of_nat (fd_vs_opp_first_games_count df deck ty (fst opp_tuple) (snd opp_tuple)) * 100)
             else None),
          win_rate_second = (if fd_vs_opp_second_games_count df deck ty (fst opp_tuple) (snd opp_tuple) > 0
             then Some (of_nat (fd_vs_opp_second_wins_count df deck ty (fst opp_tuple) (snd opp_tuple))
               / of_nat (fd_vs_opp_second_games_count df deck ty (fst opp_tuple) (snd opp_tuple)) * 100)
             else None)\<rparr>
      else None)"
  by (simp add: specific_row_def Let_def percent_pos percent_or_None_eq)

lemma pooled_row_eq:
  "pooled_row df deck ty on =
     Inr (if total_games_vs_opp_deck_agg df deck ty on > 0
      then Some \<lparr>row_deck = on, row_type = ALL_TYPES_PLACEHOLDER,
          games_played = total_games_vs_opp_deck_agg df deck ty on,
          first_games = fd_first_games_agg_total_count df deck ty on,
          focus_wins = total_focus_wins_vs_opp_deck_agg df deck ty on,
          win_rate = of_nat (total_focus_wins_vs_opp_deck_agg df deck ty on)
             / of_nat (total_games_vs_opp_deck_agg df deck ty on) * 100,
          avg_win_turn = mean_or_None (all_win_turns_agg df deck ty on),
          avg_loss_turn = mean_or_None (all_loss_turns_agg df deck ty on),
          win_rate_first = (if fd_first_games_agg_total_count df deck ty on > 0
             then Some (of_nat (fd_first_wins_agg_total df deck ty on)
               / of_nat (fd_first_games_agg_total_count df deck ty on) * 100)
             else None),
          win_rate_second = (if fd_second_games_agg_total_count df deck ty on > 0
             then Some (of_nat (fd_second_wins_agg_total df deck ty on)
               / of_nat (fd_second_games_agg_total_count df deck ty on) * 100)
             else None)\<rparr>
      else None)"
  by (simp add: pooled_row_def percent_or_zero_eq percent_or_None_eq)

lemma scenario_avg_win_turn:
  "avg_win_finish_turn_val scenario (py ''Alpha'') ALL_TYPES_PLACEHOLDER = Some 6"
  by (simp add: focus_defs eval_defs avg_win_finish_turn_val_def
    win_finish_turns_def finish_turns_def List.map_filter_def mean_or_None_def)

lemma scenario_tuples:
  "all_faced_opponents_tuples scenario (py ''Alpha'') ALL_TYPES_PLACEHOLDER
     = [(py ''Beta'', py ''Blue'')]"
  by (simp add: focus_defs eval_defs all_faced_opponents_tuples_def opponents_set_def unique_def
      lower_eq_nan_def lower_ascii_def)

lemma scenario_specific:
  "matchup_data scenario (py ''Alpha'') ALL_TYPES_PLACEHOLDER =
     Inr [\<lparr>row_deck = py ''Beta'', row_type = py ''Blue'', games_played = 2, first_games = 2,
       focus_wins = 2, win_rate = 100, avg_win_turn = Some 6, avg_loss_turn = None,
       win_rate_first = Some 100, win_rate_second = None\<rparr>]"
  unfolding matchup_data_def scenario_tuples
  by (simp add: specific_row_eq matchup_defs focus_defs eval_defs finish_turns_def
      List.map_filter_def mean_or_None_def)

lemma scenario_pooled:
  "pooled_row scenario (py ''Alpha'') ALL_TYPES_PLACEHOLDER (py ''Beta'') =
     Inr (Some \<lparr>row_deck = py ''Beta'', row_type = ALL_TYPES_PLACEHOLDER, games_played = 2, first_games = 2,
       focus_wins = 2, win_rate = 100, avg_win_turn = Some 6, avg_loss_turn = None,
       win_rate_first = Some 100, win_rate_second = None\<rparr>)"
  by (simp add: pooled_row_eq pooled_defs focus_defs eval_defs finish_turns_def
      List.map_filter_def mean_or_None_def)

lemma scenario_final:
  "matchup_df_final scenario (py ''Alpha'') ALL_TYPES_PLACEHOLDER =
     Inr [\<lparr>row_deck = py ''Beta'', row_type = ALL_TYPES_PLACEHOLDER, games_played = 2, first_games = 2,
       focus_wins = 2, win_rate = 100, avg_win_turn = Some 6, avg_loss_turn = None,
       win_rate_first = Some 100, win_rate_second = None\<rparr>,
      \<lparr>row_deck = py ''Beta'', row_type = py ''Blue'', games_played = 2, first_games = 2,
       focus_wins = 2, win_rate = 100, avg_win_turn = Some 6, avg_loss_turn = None,
       win_rate_first = Some 100, win_rate_second = None\<rparr>]"
  unfolding matchup_df_final_def scenario_specific agg_matchup_data_def
  by (simp add: unique_def scenario_pooled sort_type_def) (simp add: str_defs)

lemma scenario_memo: "memo_table scenario (py ''Alpha'') ALL_TYPES_PLACEHOLDER = []"
  by (simp add: memo_table_def all_memo_games_def memos_when_my_deck_def memos_when_opponent_deck_def
      memo_filter_def strip_def unique_def focus_defs eval_defs)

text \<open>
  C5, as the code computes it. For the two records of the scenario and the focus
  (Alpha, all types): 2 appearances, 2 wins, 0 losses, a win rate of 100, a mean finish
  turn of the wins of 6, and among the rows of the matchup table exactly one by type,
  Beta of type Blue with 2 games and 2 wins (the table also holds the pooled row of
  Beta). The first seat differs from the claim: the second record has Beta on the second
  seat, so Alpha went first in both games, and the rate of 100 is 2 wins in 2 games.
\<close>

theorem scenario_focus_report:
  "focus_analysis scenario (py ''Alpha'') ALL_TYPES_PLACEHOLDER =
     Inr (Some \<lparr>report_appearances = 2, report_wins = 2, report_losses = 0,
       report_win_rate = 100, report_avg_win_turn = Some 6,
       report_first_games = 2, report_first_wins = 2, report_first_win_rate = Some 100,
       report_second_games = 0, report_second_wins = 0, report_second_win_rate = None,
       report_matchups =
         [\<lparr>row_deck = py ''Beta'', row_type = ALL_TYPES_PLACEHOLDER, games_played = 2,
           first_games = 2, focus_wins = 2, win_rate = 100, avg_win_turn = Some 6,
           avg_loss_turn = None, win_rate_first = Some 100, win_rate_second = None\<rparr>,
          \<lparr>row_deck = py ''Beta'', row_type = py ''Blue'', games_played = 2,
           first_games = 2, focus_wins = 2, win_rate = 100, avg_win_turn = Some 6,
           avg_loss_turn = None, win_rate_first = Some 100, win_rate_second = None\<rparr>],
       report_memos = []\<rparr>)
   \<and> matchup_data scenario (py ''Alpha'') ALL_TYPES_PLACEHOLDER =
     Inr [\<lparr>row_deck = py ''Beta'', row_type = py ''Blue'', games_played = 2, first_games = 2,
       focus_wins = 2, win_rate = 100, avg_win_turn = Some 6, avg_loss_turn = None,
       win_rate_first = Some 100, win_rate_second = None\<rparr>]"
proof -
  have counts: "total_appearances scenario (py ''Alpha'') ALL_TYPES_PLACEHOLDER = 2"
    "total_wins_for_focus_deck scenario (py ''Alpha'') ALL_TYPES_PLACEHOLDER = 2"
    "total_losses_for_focus_deck scenario (py ''Alpha'') ALL_TYPES_PLACEHOLDER = 0"
    "total_games_focus_first scenario (py ''Alpha'') ALL_TYPES_PLACEHOLDER = 2"
    "wins_focus_first scenario (py ''Alpha'') ALL_TYPES_PLACEHOLDER = 2"
    "total_games_focus_second scenario (py ''Alpha'') ALL_TYPES_PLACEHOLDER = 0"
    "wins_focus_second scenario (py ''Alpha'') ALL_TYPES_PLACEHOLDER = 0"
    by (simp_all add: focus_defs eval_defs)
  have rates: "win_rate_for_focus_deck scenario (py ''Alpha'') ALL_TYPES_PLACEHOLDER = Inr 100"
    "win_rate_focus_first scenario (py ''Alpha'') ALL_TYPES_PLACEHOLDER = Inr (Some 100)"
    "win_rate_focus_second scenario (py ''Alpha'') ALL_TYPES_PLACEHOLDER = Inr None"
    by (simp_all add: win_rate_for_focus_deck_def win_rate_focus_first_def
        win_rate_focus_second_def counts percent_or_zero_eq percent_or_None_eq)
  show ?thesis
    by (simp add: focus_analysis_def counts rates scenario_avg_win_turn scenario_final scenario_memo scenario_specific)
qed

text \<open>
  C5 as stated fails: the first-seat rate is not computed over 1 game, but over 2.
\<close>

theorem scenario_first_seat_games:
  "total_games_focus_first scenario (py ''Alpha'') ALL_TYPES_PLACEHOLDER = 2
   \<and> wins_focus_first scenario (py ''Alpha'') ALL_TYPES_PLACEHOLDER = 2
   \<and> total_games_focus_first scenario (py ''Alpha'') ALL_TYPES_PLACEHOLDER \<noteq> 1"
  by (simp add: focus_defs eval_defs)

section \<open>Mirror matches\<close>

text \<open>
  C2 as stated fails: a single record with Alpha on both sides gives Alpha 2
  appearances, not 1.
\<close>

theorem mirror_counted_twice:
  "cond_my_deck_focus (py ''Alpha'') ALL_TYPES_PLACEHOLDER mirror_game
   \<and> cond_opponent_deck_focus (py ''Alpha'') ALL_TYPES_PLACEHOLDER mirror_game
   \<and> total_appearances [mirror_game] (py ''Alpha'') ALL_TYPES_PLACEHOLDER = 2
   \<and> total_appearances [mirror_game] (py ''Alpha'') ALL_TYPES_PLACEHOLDER \<noteq> 1"
  by (simp add: focus_defs eval_defs mirror_game_def)

text \<open>
  C2, as the code computes it. A record that matches the key on both sides is in both
  subsets and adds 2 to the appearances of the key: the appearances are the sum of the
  sizes of the two subsets, and nothing removes the record from the second. It adds one
  win when its result is the win and one when it is the loss, so a well-formed mirror
  match counts as one win and one loss of the deck.
\<close>

theorem mirror_on_both_sides:
  assumes "cond_my_deck_focus deck ty R" and "cond_opponent_deck_focus deck ty R"
  shows "R \<in> set (focus_as_my_deck_games (df1 @ R # df2) deck ty)
    \<and> R \<in> set (focus_as_opponent_deck_games (df1 @ R # df2) deck ty)
    \<and> total_appearances (df1 @ R # df2) deck ty = total_appearances (df1 @ df2) deck ty + 2
    \<and> total_wins_for_focus_deck (df1 @ R # df2) deck ty
        = total_wins_for_focus_deck (df1 @ df2) deck ty
          + of_bool (result R = WIN) + of_bool (result R = LOSS)"
  using assms by (simp add: focus_defs)

theorem mirror_on_both_sides_witness:
  "cond_my_deck_focus (py ''Alpha'') (py ''Red'') mirror_game
   \<and> cond_opponent_deck_focus (py ''Alpha'') (py ''Red'') mirror_game
   \<and> total_appearances [mirror_game] (py ''Alpha'') (py ''Red'') = 2
   \<and> total_wins_for_focus_deck [mirror_game] (py ''Alpha'') (py ''Red'') = 1"
proof -
  have h1: "cond_my_deck_focus (py ''Alpha'') (py ''Red'') mirror_game"
    and h2: "cond_opponent_deck_focus (py ''Alpha'') (py ''Red'') mirror_game"
    by (simp_all add: eval_defs mirror_game_def)
  have w: "result mirror_game = WIN" "WIN \<noteq> LOSS"
    by (simp_all add: mirror_game_def game_def str_defs)
  show ?thesis
    using h1 h2 mirror_on_both_sides [OF h1 h2, of "[]" "[]"] w
    by (simp add: focus_defs)
qed

section \<open>Rates and empty denominators\<close>

text \<open>Closed forms of the overview figures, and the absence of exceptions.\<close>

lemma matchup_wr_eq:
  "matchup_wr df a b =
     Inr (if total_games_vs_specific_opponent df a b = 0 then None
          else Some (of_nat (total_wins_for_a_vs_specific_opponent df a b)
                 / of_nat (total_games_vs_specific_opponent df a b) * 100))"
  by (simp add: matchup_wr_def percent_pos)

lemma matchup_win_rates_eq:
  "matchup_win_rates_for_deck_a df a =
     Inr (List.map_filter
       (\<lambda>b. if total_games_vs_specific_opponent df a b = 0 then None
          else Some (of_nat (total_wins_for_a_vs_specific_opponent df a b)
                 / of_nat (total_games_vs_specific_opponent df a b) * 100))
       (unique_opponents_faced_by_deck_a df a))"
  unfolding matchup_win_rates_for_deck_a_def
  by (simp add: collect_rows_Inr [where g = "\<lambda>b. if total_games_vs_specific_opponent df a b = 0 then None
          else Some (of_nat (total_wins_for_a_vs_specific_opponent df a b)
                 / of_nat (total_games_vs_specific_opponent df a b) * 100)"] matchup_wr_eq
      List.map_filter_simps)

lemma avg_matchup_wr_eq:
  "avg_matchup_wr_deck_a df a =
     Inr (mean_or_None (List.map_filter
       (\<lambda>b. if total_games_vs_specific_opponent df a b = 0 then None
          else Some (of_nat (total_wins_for_a_vs_specific_opponent df a b)
                 / of_nat (total_games_vs_specific_opponent df a b) * 100))
       (unique_opponents_faced_by_deck_a df a)))"
  by (simp add: avg_matchup_wr_deck_a_def matchup_win_rates_eq)

lemma overview_entry_eq:
  "overview_entry df a =
     Inr (if a \<noteq> [] \<and> total_appearances_deck_a df a > 0
      then Some \<lparr>deck_archetype = a,
          appearances = total_appearances_deck_a df a,
          appearances_first = total_games_deck_a_first df a,
          total_wins = total_wins_deck_a df a,
          total_losses = total_losses_deck_a df a,
          overall_win_rate = of_nat (total_wins_deck_a df a)
             / of_nat (total_appearances_deck_a df a) * 100,
          avg_matchup_win_rate = mean_or_None (List.map_filter
             (\<lambda>b. if total_games_vs_specific_opponent df a b = 0 then None
                else Some (of_nat (total_wins_for_a_vs_specific_opponent df a b)
                       / of_nat (total_games_vs_specific_opponent df a b) * 100))
             (unique_opponents_faced_by_deck_a df a)),
          first_win_rate = (if total_games_deck_a_first df a > 0
             then Some (of_nat (wins_deck_a_first df a)
                    / of_nat (total_games_deck_a_first df a) * 100) else None),
          second_win_rate = (if total_games_deck_a_second df a > 0
             then Some (of_nat (wins_deck_a_second df a)
                    / of_nat (total_games_deck_a_second df a) * 100) else None)\<rparr>
      else None)"
  by (simp add: overview_entry_def simple_overall_win_rate_deck_a_def win_rate_deck_a_first_def
      win_rate_deck_a_second_def percent_or_zero_eq percent_or_None_eq avg_matchup_wr_eq)

lemma collect_rows_total:
  "(\<And>x. x \<in> set xs \<Longrightarrow> \<exists>r. f x = Inr r) \<Longrightarrow> \<exists>rows. collect_rows f xs = Inr rows"
proof (induction xs)
  case Nil
  show ?case by simp
next
  case (Cons a xs)
  obtain r where r: "f a = Inr r" using Cons.prems [of a] by auto
  obtain rows where rows: "collect_rows f xs = Inr rows" using Cons by auto
  show ?case by (simp add: r rows)
qed

lemma general_performance_data_total: "\<exists>rows. general_performance_data df = Inr rows"
  unfolding general_performance_data_def
  by (rule collect_rows_total) (simp add: overview_entry_eq)









section \<open>The average matchup win rate\<close>

lemma set_unique [simp]: "set (unique xs) = set xs"
  by (simp add: unique_def)

lemma distinct_unique [simp]: "distinct (unique xs)"
  by (simp add: unique_def)

lemma set_unique_opponents:
  "set (unique_opponents_faced_by_deck_a df a) =
     {b \<in> set (map opponent_deck (filter (\<lambda>r. my_deck r = a) df))
           \<union> set (map my_deck (filter (\<lambda>r. opponent_deck r = a) df)).
        b \<noteq> a \<and> strip b \<noteq> [] \<and> \<not> lower_eq_nan (strip b)}"
proof -
  have e: "strip [] = []" by (simp add: strip_def)
  show ?thesis
    unfolding unique_opponents_faced_by_deck_a_def set_unique List.map_filter_def
      games_involving_deck_a_def opponent_counted_def opponent_for_this_game_def
    using e by (auto split: if_splits)
qed

lemma pairing_games:
  "a \<noteq> b \<Longrightarrow> total_games_vs_specific_opponent df a b =
     length (filter (\<lambda>r. my_deck r = a \<and> opponent_deck r = b
                        \<or> opponent_deck r = a \<and> my_deck r = b) df)"
  unfolding total_games_vs_specific_opponent_def a_vs_opp_my_games_def
    a_vs_opp_opponent_games_def games_involving_deck_a_def
  by (induction df) auto

lemma pairing_wins:
  "a \<noteq> b \<Longrightarrow> total_wins_for_a_vs_specific_opponent df a b =
     length (filter (\<lambda>r. my_deck r = a \<and> opponent_deck r = b \<and> result r = WIN
                        \<or> opponent_deck r = a \<and> my_deck r = b \<and> result r = LOSS) df)"
  unfolding total_wins_for_a_vs_specific_opponent_def a_vs_opp_my_games_def
    a_vs_opp_opponent_games_def games_involving_deck_a_def
  by (induction df) auto

lemma faced_games_pos:
  assumes "b \<in> set (unique_opponents_faced_by_deck_a df a)"
  shows "total_games_vs_specific_opponent df a b > 0"
proof -
  from assms have ne: "a \<noteq> b"
    and "\<exists>r\<in>set df. my_deck r = a \<and> opponent_deck r = b \<or> opponent_deck r = a \<and> my_deck r = b"
    unfolding set_unique_opponents by auto
  then have "filter (\<lambda>r. my_deck r = a \<and> opponent_deck r = b
                        \<or> opponent_deck r = a \<and> my_deck r = b) df \<noteq> []"
    by (auto simp: filter_empty_conv)
  then show ?thesis by (simp add: pairing_games [OF ne])
qed

lemma map_filter_all_Some:
  "(\<And>x. x \<in> set xs \<Longrightarrow> f x = Some (g x)) \<Longrightarrow> List.map_filter f xs = map g xs"
  by (induction xs) (simp_all add: List.map_filter_simps)

text \<open>
  C4, as the code computes it. The opponents of \<open>a\<close> are the decks \<open>b \<noteq> a\<close> on the other
  side of a record of \<open>a\<close> whose name, stripped of surrounding whitespace, is not empty
  and not \<open>nan\<close> in any letter case. The average matchup win rate of \<open>a\<close> is the unweighted
  mean over these opponents of the win rate of \<open>a\<close> in the games of the pairing (the wins
  of \<open>a\<close> are the recorded wins with \<open>a\<close> on the own side and the recorded losses with
  \<open>a\<close> on the opponent side), and "no data" when there is no such opponent.
\<close>

theorem average_matchup_win_rate:
  "avg_matchup_wr_deck_a df a =
     (let opponents =
            {b \<in> set (map opponent_deck (filter (\<lambda>r. my_deck r = a) df))
                  \<union> set (map my_deck (filter (\<lambda>r. opponent_deck r = a) df)).
               b \<noteq> a \<and> strip b \<noteq> [] \<and> \<not> lower_eq_nan (strip b)};
          games = (\<lambda>b. length (filter (\<lambda>r. my_deck r = a \<and> opponent_deck r = b
                        \<or> opponent_deck r = a \<and> my_deck r = b) df));
          wins = (\<lambda>b. length (filter (\<lambda>r. my_deck r = a \<and> opponent_deck r = b \<and> result r = WIN
                        \<or> opponent_deck r = a \<and> my_deck r = b \<and> result r = LOSS) df))
      in Inr (if opponents = {} then None
              else Some ((\<Sum>b \<in> opponents. of_nat (wins b) / of_nat (games b) * 100)
                         / of_nat (card opponents))))"
proof -
  let ?ops = "unique_opponents_faced_by_deck_a df a"
  let ?wr = "\<lambda>b. (of_nat (total_wins_for_a_vs_specific_opponent df a b)
                 / of_nat (total_games_vs_specific_opponent df a b) * 100 :: rat)"
  let ?wr' = "\<lambda>b. (of_nat (length (filter (\<lambda>r. my_deck r = a \<and> opponent_deck r = b \<and> result r = WIN
                        \<or> opponent_deck r = a \<and> my_deck r = b \<and> result r = LOSS) df))
           / of_nat (length (filter (\<lambda>r. my_deck r = a \<and> opponent_deck r = b
                        \<or> opponent_deck r = a \<and> my_deck r = b) df)) * 100 :: rat)"
  have rates: "List.map_filter
       (\<lambda>b. if total_games_vs_specific_opponent df a b = 0 then None else Some (?wr b)) ?ops
       = map ?wr ?ops"
    by (rule map_filter_all_Some) (use faced_games_pos in fastforce)
  have ne: "b \<in> set ?ops \<Longrightarrow> a \<noteq> b" for b
    unfolding set_unique_opponents by auto
  have wr: "b \<in> set ?ops \<Longrightarrow> ?wr b = ?wr' b" for b
    using ne [of b] by (simp add: pairing_games pairing_wins)
  have d: "distinct ?ops"
    by (simp add: unique_opponents_faced_by_deck_a_def)
  have "sum_list (map ?wr ?ops) = sum ?wr (set ?ops)"
    using d by (rule sum_list_distinct_conv_sum_set)
  also have "\<dots> = sum ?wr' (set ?ops)"
    by (rule sum.cong [OF refl]) (rule wr)
  finally have sum: "sum_list (map ?wr ?ops) = (\<Sum>b \<in> set ?ops. ?wr' b)" .
  have len: "length ?ops = card (set ?ops)"
    using d by (simp add: distinct_card)
  have "avg_matchup_wr_deck_a df a =
      Inr (if set ?ops = {} then None
           else Some ((\<Sum>b \<in> set ?ops. ?wr' b) / of_nat (card (set ?ops))))"
    unfolding avg_matchup_wr_eq rates mean_or_None_def sum [symmetric] len [symmetric]
    by simp
  then show ?thesis
    unfolding set_unique_opponents Let_def .
qed

text \<open>
  C4 as stated fails on the guard. With a deck named by a single space, the overview
  has the rows of that deck, of Alpha and of Beta; Alpha has faced both other decks,
  with rates 100 and 0, yet its average is 0, not 50: the blank name is not counted as
  an opponent.
\<close>

lemmas blank_defs = blank_opponent_games_def game_def str_defs

lemma blank_names:
  "get_all_analyzable_deck_names blank_opponent_games = [py '' '', py ''Alpha'', py ''Beta'']"
  by (simp add: get_all_analyzable_deck_names_def blank_defs unique_def lower_eq_nan_def
      lower_ascii_def)

lemma blank_opps:
  "unique_opponents_faced_by_deck_a blank_opponent_games (py ''Alpha'') = [py ''Beta'']"
  by (simp add: unique_opponents_faced_by_deck_a_def games_involving_deck_a_def blank_defs
      List.map_filter_def opponent_counted_def opponent_for_this_game_def unique_def strip_def
      isspace_def lower_eq_nan_def lower_ascii_def)

lemma blank_counts:
  "total_games_vs_specific_opponent blank_opponent_games (py ''Alpha'') (py '' '') = 1"
  "total_wins_for_a_vs_specific_opponent blank_opponent_games (py ''Alpha'') (py '' '') = 1"
  "total_games_vs_specific_opponent blank_opponent_games (py ''Alpha'') (py ''Beta'') = 1"
  "total_wins_for_a_vs_specific_opponent blank_opponent_games (py ''Alpha'') (py ''Beta'') = 0"
  by (simp_all add: total_games_vs_specific_opponent_def total_wins_for_a_vs_specific_opponent_def
      a_vs_opp_my_games_def a_vs_opp_opponent_games_def games_involving_deck_a_def blank_defs)

theorem blank_opponent_not_averaged:
  "get_all_analyzable_deck_names blank_opponent_games = [py '' '', py ''Alpha'', py ''Beta'']
   \<and> matchup_wr blank_opponent_games (py ''Alpha'') (py '' '') = Inr (Some 100)
   \<and> matchup_wr blank_opponent_games (py ''Alpha'') (py ''Beta'') = Inr (Some 0)
   \<and> avg_matchup_wr_deck_a blank_opponent_games (py ''Alpha'') = Inr (Some 0)
   \<and> avg_matchup_wr_deck_a blank_opponent_games (py ''Alpha'') \<noteq> Inr (Some ((100 + 0) / 2))"
  by (simp add: blank_names matchup_wr_eq blank_counts avg_matchup_wr_eq blank_opps
      List.map_filter_def mean_or_None_def)

section \<open>Symmetry of the pairings\<close>

lemma WIN_neq_LOSS: "WIN \<noteq> LOSS"
  by (simp add: WIN_def LOSS_def)

lemma pooled_symmetry:
  assumes "\<forall>r\<in>set df. result r = WIN \<or> result r = LOSS" and "a \<noteq> b"
  shows "total_focus_wins_vs_opp_deck_agg df a ALL_TYPES_PLACEHOLDER b
       + total_focus_wins_vs_opp_deck_agg df b ALL_TYPES_PLACEHOLDER a
       = length (filter (\<lambda>r. my_deck r = a \<and> opponent_deck r = b
                            \<or> my_deck r = b \<and> opponent_deck r = a) df)"
  using assms WIN_neq_LOSS
  unfolding total_focus_wins_vs_opp_deck_agg_def case1_agg_games_total_def
    case2_agg_games_total_def focus_as_my_deck_games_def focus_as_opponent_deck_games_def
    cond_my_deck_focus_def cond_opponent_deck_focus_def type_selected_def
  by (induction df) auto

lemma pooled_games:
  assumes "a \<noteq> b"
  shows "total_games_vs_opp_deck_agg df a ALL_TYPES_PLACEHOLDER b
       = length (filter (\<lambda>r. my_deck r = a \<and> opponent_deck r = b
                            \<or> my_deck r = b \<and> opponent_deck r = a) df)"
  using assms
  unfolding total_games_vs_opp_deck_agg_def case1_agg_games_total_def
    case2_agg_games_total_def focus_as_my_deck_games_def focus_as_opponent_deck_games_def
    cond_my_deck_focus_def cond_opponent_deck_focus_def type_selected_def
  by (induction df) auto

lemma overview_symmetry:
  assumes "\<forall>r\<in>set df. result r = WIN \<or> result r = LOSS" and "a \<noteq> b"
  shows "total_wins_for_a_vs_specific_opponent df a b
       + total_wins_for_a_vs_specific_opponent df b a
       = length (filter (\<lambda>r. my_deck r = a \<and> opponent_deck r = b
                            \<or> my_deck r = b \<and> opponent_deck r = a) df)"
  using assms WIN_neq_LOSS
  unfolding total_wins_for_a_vs_specific_opponent_def a_vs_opp_my_games_def
    a_vs_opp_opponent_games_def games_involving_deck_a_def
  by (induction df) auto

text \<open>
  C6 as stated, for every filtered record set, fails. A win is counted by comparing the
  result with the win string (on the own side) or with the loss string (on the opponent
  side), so a record with any other result is a win for neither deck. With the one record
  of \<open>blank_result_games\<close>, Alpha and Beta meet in \<open>N = 1\<close> record, and the wins of both,
  in the pooled aggregation of the focus analysis and in the overview, add up to \<open>0\<close>.
\<close>

theorem symmetry_fails_on_blank_result:
  "py ''Alpha'' \<noteq> py ''Beta''
   \<and> length (filter (\<lambda>r. my_deck r = py ''Alpha'' \<and> opponent_deck r = py ''Beta''
                      \<or> my_deck r = py ''Beta'' \<and> opponent_deck r = py ''Alpha'')
               blank_result_games) = 1
   \<and> total_focus_wins_vs_opp_deck_agg blank_result_games (py ''Alpha'') ALL_TYPES_PLACEHOLDER (py ''Beta'')
       + total_focus_wins_vs_opp_deck_agg blank_result_games (py ''Beta'') ALL_TYPES_PLACEHOLDER (py ''Alpha'') = 0
   \<and> total_wins_for_a_vs_specific_opponent blank_result_games (py ''Alpha'') (py ''Beta'')
       + total_wins_for_a_vs_specific_opponent blank_result_games (py ''Beta'') (py ''Alpha'') = 0"
  by (simp add: blank_result_games_def game_def str_defs pooled_defs focus_defs type_selected_def
      cond_my_deck_focus_def cond_opponent_deck_focus_def
      total_wins_for_a_vs_specific_opponent_def a_vs_opp_my_games_def a_vs_opp_opponent_games_def
      games_involving_deck_a_def)

text \<open>
  C6, as the code computes it: on a record set in which every result is the win or the
  loss string. Let \<open>a \<noteq> b\<close> meet in \<open>N\<close> records of such a set. Then the wins of \<open>a\<close>
  against \<open>b\<close> and the wins of \<open>b\<close> against \<open>a\<close>, each from the pooled (all types)
  aggregation of its own focus analysis, add up to \<open>N\<close>; so do the wins the overview
  counts per pairing; and when \<open>N > 0\<close> both pooled rows exist, each with \<open>N\<close> games.
\<close>

theorem matchup_symmetry:
  assumes "\<forall>r\<in>set df. result r = WIN \<or> result r = LOSS" and "a \<noteq> b"
  shows "(let N = length (filter (\<lambda>r. my_deck r = a \<and> opponent_deck r = b
                                    \<or> my_deck r = b \<and> opponent_deck r = a) df)
     in total_focus_wins_vs_opp_deck_agg df a ALL_TYPES_PLACEHOLDER b
          + total_focus_wins_vs_opp_deck_agg df b ALL_TYPES_PLACEHOLDER a = N
        \<and> total_wins_for_a_vs_specific_opponent df a b
          + total_wins_for_a_vs_specific_opponent df b a = N
        \<and> (N > 0 \<longrightarrow>
             (\<exists>row_a row_b.
                pooled_row df a ALL_TYPES_PLACEHOLDER b = Inr (Some row_a)
                \<and> pooled_row df b ALL_TYPES_PLACEHOLDER a = Inr (Some row_b)
                \<and> games_played row_a = N \<and> games_played row_b = N
                \<and> focus_wins row_a + focus_wins row_b = N)))"
proof -
  have g: "total_games_vs_opp_deck_agg df b ALL_TYPES_PLACEHOLDER a
       = length (filter (\<lambda>r. my_deck r = a \<and> opponent_deck r = b
                            \<or> my_deck r = b \<and> opponent_deck r = a) df)"
    using pooled_games [of b a df] assms(2) by (simp add: disj_commute)
  show ?thesis
    unfolding Let_def
    using pooled_symmetry [OF assms] overview_symmetry [OF assms] pooled_games [OF assms(2), of df] g
    by (simp add: pooled_row_eq)
qed

text \<open>In the scenario Alpha and Beta meet twice, and Alpha wins both games.\<close>

theorem matchup_symmetry_witness:
  "map result scenario = [WIN, LOSS] \<and> py ''Alpha'' \<noteq> py ''Beta''
   \<and> total_focus_wins_vs_opp_deck_agg scenario (py ''Alpha'') ALL_TYPES_PLACEHOLDER (py ''Beta'') = 2
   \<and> total_focus_wins_vs_opp_deck_agg scenario (py ''Beta'') ALL_TYPES_PLACEHOLDER (py ''Alpha'') = 0
   \<and> length (filter (\<lambda>r. my_deck r = py ''Alpha'' \<and> opponent_deck r = py ''Beta''
                      \<or> my_deck r = py ''Beta'' \<and> opponent_deck r = py ''Alpha'') scenario) = 2"
proof -
  have h1: "\<forall>r\<in>set scenario. result r = WIN \<or> result r = LOSS"
    by (simp add: scenario_def game_def)
  have h2: "py ''Alpha'' \<noteq> py ''Beta''"
    by (simp add: py_def)
  have w: "total_focus_wins_vs_opp_deck_agg scenario (py ''Alpha'') ALL_TYPES_PLACEHOLDER (py ''Beta'') = 2"
    by (simp add: pooled_defs focus_defs eval_defs)
  have n: "length (filter (\<lambda>r. my_deck r = py ''Alpha'' \<and> opponent_deck r = py ''Beta''
                      \<or> my_deck r = py ''Beta'' \<and> opponent_deck r = py ''Alpha'') scenario) = 2"
    by (simp add: scenario_def game_def py_def)
  have r: "map result scenario = [WIN, LOSS]"
    by (simp add: scenario_def game_def)
  show ?thesis
    using r h2 w matchup_symmetry [OF h1 h2] unfolding Let_def n by simp
qed

section \<open>Pooled rows and rows by type\<close>

lemma length_filter_disjoint:
  "(\<And>x. x \<in> set xs \<Longrightarrow> \<not> (P x \<and> Q x)) \<Longrightarrow>
     length (filter P xs) + length (filter Q xs) = length (filter (\<lambda>x. P x \<or> Q x) xs)"
  by (induction xs) auto

lemma sum_length_filter_by_key:
  assumes "distinct ts"
  shows "(\<Sum>t\<leftarrow>ts. length (filter (\<lambda>x. P x \<and> f x = t) xs))
       = length (filter (\<lambda>x. P x \<and> f x \<in> set ts) xs)"
  using assms
proof (induction ts)
  case Nil
  show ?case by simp
next
  case (Cons t ts)
  have "length (filter (\<lambda>x. P x \<and> f x = t) xs) + length (filter (\<lambda>x. P x \<and> f x \<in> set ts) xs)
      = length (filter (\<lambda>x. (P x \<and> f x = t) \<or> (P x \<and> f x \<in> set ts)) xs)"
    using Cons.prems by (intro length_filter_disjoint) auto
  also have "\<dots> = length (filter (\<lambda>x. P x \<and> f x \<in> set (t # ts)) xs)"
    by (rule arg_cong [where f = length], rule filter_cong) auto
  finally show ?case using Cons by simp
qed

lemma sum_length_filter_covered:
  assumes "distinct ts" and "\<And>x. x \<in> set xs \<Longrightarrow> P x \<Longrightarrow> f x \<in> set ts"
  shows "(\<Sum>t\<leftarrow>ts. length (filter (\<lambda>x. P x \<and> f x = t) xs)) = length (filter P xs)"
proof -
  have "filter (\<lambda>x. P x \<and> f x \<in> set ts) xs = filter P xs"
    by (rule filter_cong) (use assms(2) in auto)
  then show ?thesis by (simp add: sum_length_filter_by_key [OF assms(1)])
qed

lemma matchup_data_eq:
  "matchup_data df deck ty =
     Inr (List.map_filter
       (\<lambda>t. if games_played_count df deck ty (fst t) (snd t) > 0
          then Some \<lparr>row_deck = fst t, row_type = snd t,
          games_played = games_played_count df deck ty (fst t) (snd t),
          first_games = fd_vs_opp_first_games_count df deck ty (fst t) (snd t),
          focus_wins = focus_deck_wins_count df deck ty (fst t) (snd t),
          win_rate = of_nat (focus_deck_wins_count df deck ty (fst t) (snd t))
             / of_nat (games_played_count df deck ty (fst t) (snd t)) * 100,
          avg_win_turn = mean_or_None (focus_deck_win_turns_vs_opp df deck ty (fst t) (snd t)),
          avg_loss_turn = mean_or_None (focus_deck_loss_turns_vs_opp df deck ty (fst t) (snd t)),
          win_rate_first = (if fd_vs_opp_first_games_count df deck ty (fst t) (snd t) > 0
             then Some (of_nat (fd_vs_opp_first_wins_count df deck ty (fst t) (snd t))
               / of_nat (fd_vs_opp_first_games_count df deck ty (fst t) (snd t)) * 100)
             else None),
          win_rate_second = (if fd_vs_opp_second_games_count df deck ty (fst t) (snd t) > 0
             then Some (of_nat (fd_vs_opp_second_wins_count df deck ty (fst t) (snd t))
               / of_nat (fd_vs_opp_second_games_count df deck ty (fst t) (snd t)) * 100)
             else None)\<rparr>
          else None)
       (all_faced_opponents_tuples df deck ty))"
  unfolding matchup_data_def
  by (rule collect_rows_Inr) (rule specific_row_eq)

lemma specific_rows_of_deck:
  assumes "\<And>t. t \<in> set ts \<Longrightarrow> (case g t of None \<Rightarrow> n t = 0
              | Some r \<Rightarrow> row_deck r = fst t \<and> games_played r = n t)"
  shows "sum_list (map games_played (filter (\<lambda>s. row_deck s = B) (List.map_filter g ts)))
       = (\<Sum>t\<leftarrow>filter (\<lambda>t. fst t = B) ts. n t)"
  using assms
proof (induction ts)
  case Nil
  show ?case by (simp add: List.map_filter_simps)
next
  case (Cons t ts)
  have IH: "sum_list (map games_played (filter (\<lambda>s. row_deck s = B) (List.map_filter g ts)))
       = (\<Sum>t\<leftarrow>filter (\<lambda>t. fst t = B) ts. n t)"
    by (rule Cons.IH) (simp add: Cons.prems)
  from Cons.prems [of t] show ?case
    by (cases "g t") (auto simp: List.map_filter_simps IH)
qed

lemma set_opponents_set:
  "set (opponents_set df deck ty) =
     (\<lambda>r. (opponent_deck r, opponent_deck_type r)) ` set (focus_as_my_deck_games df deck ty)
     \<union> (\<lambda>r. (my_deck r, my_deck_type r)) ` set (focus_as_opponent_deck_games df deck ty)"
  by (auto simp: opponents_set_def)

lemma set_all_faced:
  "set (all_faced_opponents_tuples df deck ty) =
     {t \<in> set (opponents_set df deck ty). fst t \<noteq> [] \<and> \<not> lower_eq_nan (fst t)}"
  by (auto simp: all_faced_opponents_tuples_def)

lemma distinct_all_faced: "distinct (all_faced_opponents_tuples df deck ty)"
  by (simp add: all_faced_opponents_tuples_def)

lemma pooled_games_by_type:
  assumes B: "B \<noteq> []" "\<not> lower_eq_nan B"
  shows "(\<Sum>t\<leftarrow>filter (\<lambda>t. fst t = B) (all_faced_opponents_tuples df deck ty).
            games_played_count df deck ty (fst t) (snd t))
       = total_games_vs_opp_deck_agg df deck ty B"
proof -
  let ?tuples = "all_faced_opponents_tuples df deck ty"
  let ?ts = "map snd (filter (\<lambda>t. fst t = B) ?tuples)"
  have d: "distinct ?ts"
    by (auto simp: distinct_map distinct_all_faced inj_on_def)
  have mem: "t' \<in> set ?ts \<longleftrightarrow> (B, t') \<in> set ?tuples" for t'
    by force
  have cov1: "opponent_deck_type r \<in> set ?ts"
    if "r \<in> set (focus_as_my_deck_games df deck ty)" "opponent_deck r = B" for r
  proof -
    have "(B, opponent_deck_type r) \<in> set ?tuples"
      using B that by (force simp: set_all_faced set_opponents_set)
    then show ?thesis by (simp only: mem)
  qed
  have cov2: "my_deck_type r \<in> set ?ts"
    if "r \<in> set (focus_as_opponent_deck_games df deck ty)" "my_deck r = B" for r
  proof -
    have "(B, my_deck_type r) \<in> set ?tuples"
      using B that by (force simp: set_all_faced set_opponents_set)
    then show ?thesis by (simp only: mem)
  qed
  have "(\<Sum>t\<leftarrow>filter (\<lambda>t. fst t = B) ?tuples. games_played_count df deck ty (fst t) (snd t))
      = (\<Sum>t'\<leftarrow>?ts. games_played_count df deck ty B t')"
    unfolding map_map comp_def
    by (rule arg_cong [where f = sum_list], rule map_cong) auto
  also have "\<dots> = (\<Sum>t'\<leftarrow>?ts. length (case1_games df deck ty B t'))
                 + (\<Sum>t'\<leftarrow>?ts. length (case2_games df deck ty B t'))"
    by (simp only: games_played_count_def sum_list_addf)
  also have "(\<Sum>t'\<leftarrow>?ts. length (case1_games df deck ty B t'))
      = length (case1_agg_games_total df deck ty B)"
    unfolding case1_games_def case1_agg_games_total_def
    by (rule sum_length_filter_covered [OF d]) (rule cov1)
  also have "(\<Sum>t'\<leftarrow>?ts. length (case2_games df deck ty B t'))
      = length (case2_agg_games_total df deck ty B)"
    unfolding case2_games_def case2_agg_games_total_def
    by (rule sum_length_filter_covered [OF d]) (rule cov2)
  finally show ?thesis
    by (simp add: total_games_vs_opp_deck_agg_def)
qed

lemma matchup_data_rows:
  "\<exists>g. matchup_data df deck ty = Inr (List.map_filter g (all_faced_opponents_tuples df deck ty))
     \<and> (\<forall>t. case g t of None \<Rightarrow> games_played_count df deck ty (fst t) (snd t) = 0
            | Some r \<Rightarrow> row_deck r = fst t
                \<and> games_played r = games_played_count df deck ty (fst t) (snd t)
                \<and> games_played r > 0)"
  unfolding matchup_data_eq
  by (rule exI, rule conjI, rule refl) simp

lemma agg_matchup_data_rows:
  "\<exists>h. (\<forall>specific. agg_matchup_data df deck ty specific
             = Inr (List.map_filter h (unique (map row_deck specific))))
     \<and> (\<forall>B. case h B of None \<Rightarrow> total_games_vs_opp_deck_agg df deck ty B = 0
            | Some r \<Rightarrow> row_deck r = B \<and> row_type r = ALL_TYPES_PLACEHOLDER
                \<and> games_played r = total_games_vs_opp_deck_agg df deck ty B)"
proof -
  let ?h = "\<lambda>on. if total_games_vs_opp_deck_agg df deck ty on > 0
      then Some \<lparr>row_deck = on, row_type = ALL_TYPES_PLACEHOLDER,
          games_played = total_games_vs_opp_deck_agg df deck ty on,
          first_games = fd_first_games_agg_total_count df deck ty on,
          focus_wins = total_focus_wins_vs_opp_deck_agg df deck ty on,
          win_rate = of_nat (total_focus_wins_vs_opp_deck_agg df deck ty on)
             / of_nat (total_games_vs_opp_deck_agg df deck ty on) * 100,
          avg_win_turn = mean_or_None (all_win_turns_agg df deck ty on),
          avg_loss_turn = mean_or_None (all_loss_turns_agg df deck ty on),
          win_rate_first = (if fd_first_games_agg_total_count df deck ty on > 0
             then Some (of_nat (fd_first_wins_agg_total df deck ty on)
               / of_nat (fd_first_games_agg_total_count df deck ty on) * 100)
             else None),
          win_rate_second = (if fd_second_games_agg_total_count df deck ty on > 0
             then Some (of_nat (fd_second_wins_agg_total df deck ty on)
               / of_nat (fd_second_games_agg_total_count df deck ty on) * 100)
             else None)\<rparr>
      else None"
  have "agg_matchup_data df deck ty specific
      = Inr (List.map_filter ?h (unique (map row_deck specific)))" for specific
    unfolding agg_matchup_data_def
    by (rule collect_rows_Inr) (rule pooled_row_eq)
  moreover have "\<forall>B. case ?h B of None \<Rightarrow> total_games_vs_opp_deck_agg df deck ty B = 0
            | Some r \<Rightarrow> row_deck r = B \<and> row_type r = ALL_TYPES_PLACEHOLDER
                \<and> games_played r = total_games_vs_opp_deck_agg df deck ty B"
    by simp
  ultimately show ?thesis by blast
qed

text \<open>
  C7. For every focus key the rows by type and the pooled rows of the matchup table are
  computed without failure, and the table is their concatenation, sorted. The pooled
  rows are those of the opponent decks of the rows by type, one per deck, and the number
  of games of a pooled row is the sum of the numbers of games of the rows by type of the
  same opponent deck.
\<close>

theorem pooled_is_sum_of_specific:
  "\<exists>specific pooled.
      matchup_data df deck ty = Inr specific
    \<and> agg_matchup_data df deck ty specific = Inr pooled
    \<and> matchup_df_final df deck ty =
        Inr (if specific = [] then []
             else sort_key (\<lambda>r. (row_deck r, sort_type (row_type r))) (specific @ pooled))
    \<and> map row_deck pooled = unique (map row_deck specific)
    \<and> (\<forall>p \<in> set pooled. row_type p = ALL_TYPES_PLACEHOLDER
          \<and> games_played p
            = sum_list (map games_played (filter (\<lambda>s. row_deck s = row_deck p) specific)))"
proof -
  let ?tuples = "all_faced_opponents_tuples df deck ty"
  let ?n = "\<lambda>t. games_played_count df deck ty (fst t) (snd t)"
  obtain g where g: "matchup_data df deck ty = Inr (List.map_filter g ?tuples)"
    and gp: "\<And>t. case g t of None \<Rightarrow> ?n t = 0
            | Some r \<Rightarrow> row_deck r = fst t \<and> games_played r = ?n t \<and> games_played r > 0"
    using matchup_data_rows [of df deck ty] by blast
  obtain h where h: "\<And>specific. agg_matchup_data df deck ty specific
             = Inr (List.map_filter h (unique (map row_deck specific)))"
    and hp: "\<And>B. case h B of None \<Rightarrow> total_games_vs_opp_deck_agg df deck ty B = 0
            | Some r \<Rightarrow> row_deck r = B \<and> row_type r = ALL_TYPES_PLACEHOLDER
                \<and> games_played r = total_games_vs_opp_deck_agg df deck ty B"
    using agg_matchup_data_rows [of df deck ty] by blast
  define specific where "specific = List.map_filter g ?tuples"
  define names where "names = unique (map row_deck specific)"
  define pooled where "pooled = List.map_filter h names"
  have sum_B: "sum_list (map games_played (filter (\<lambda>s. row_deck s = B) specific))
       = (\<Sum>t\<leftarrow>filter (\<lambda>t. fst t = B) ?tuples. ?n t)" for B
    unfolding specific_def
  proof (rule specific_rows_of_deck)
    fix t
    show "case g t of None \<Rightarrow> ?n t = 0 | Some r \<Rightarrow> row_deck r = fst t \<and> games_played r = ?n t"
      using gp [of t] by (cases "g t") auto
  qed
  have name: "B \<noteq> [] \<and> \<not> lower_eq_nan B
      \<and> sum_list (map games_played (filter (\<lambda>s. row_deck s = B) specific)) > 0"
    if "B \<in> set names" for B
  proof -
    from that obtain s where s: "s \<in> set specific" "row_deck s = B"
      by (auto simp: names_def)
    then obtain t where t: "t \<in> set ?tuples" "g t = Some s"
      by (auto simp: specific_def List.map_filter_def)
    with gp [of t] s have "fst t = B" "games_played s > 0" by auto
    with t(1) have "B \<noteq> []" "\<not> lower_eq_nan B"
      by (auto simp: set_all_faced)
    moreover have "games_played s \<in> set (map games_played (filter (\<lambda>s. row_deck s = B) specific))"
      using s by auto
    then have "games_played s \<le> sum_list (map games_played (filter (\<lambda>s. row_deck s = B) specific))"
      by (intro member_le_sum_list) simp_all
    ultimately show ?thesis using \<open>games_played s > 0\<close> by simp
  qed
  have total_B: "total_games_vs_opp_deck_agg df deck ty B
       = sum_list (map games_played (filter (\<lambda>s. row_deck s = B) specific))"
    if "B \<in> set names" for B
    using name [OF that] by (simp add: sum_B pooled_games_by_type)
  have hB: "\<exists>r. h B = Some r \<and> row_deck r = B \<and> row_type r = ALL_TYPES_PLACEHOLDER
       \<and> games_played r = sum_list (map games_played (filter (\<lambda>s. row_deck s = B) specific))"
    if "B \<in> set names" for B
  proof -
    have pos: "total_games_vs_opp_deck_agg df deck ty B > 0"
      using name [OF that] by (simp only: total_B [OF that])
    show ?thesis
    proof (cases "h B")
      case None
      with hp [of B] pos show ?thesis by simp
    next
      case (Some r)
      with hp [of B] show ?thesis by (simp only: total_B [OF that]) simp
    qed
  qed
  have pooled_map: "pooled = map (the \<circ> h) names"
    unfolding pooled_def
    by (rule map_filter_all_Some) (use hB in force)
  have decks: "map row_deck pooled = names"
    unfolding pooled_map map_map
    by (rule map_idI) (use hB in force)
  have rows: "\<forall>p \<in> set pooled. row_type p = ALL_TYPES_PLACEHOLDER
          \<and> games_played p
            = sum_list (map games_played (filter (\<lambda>s. row_deck s = row_deck p) specific))"
    unfolding pooled_map using hB by force
  have 1: "matchup_data df deck ty = Inr specific"
    by (simp add: g specific_def)
  have 2: "agg_matchup_data df deck ty specific = Inr pooled"
    by (simp add: h pooled_def names_def)
  have 3: "matchup_df_final df deck ty =
        Inr (if specific = [] then []
             else sort_key (\<lambda>r. (row_deck r, sort_type (row_type r))) (specific @ pooled))"
    by (simp add: matchup_df_final_def 1 2)
  from 1 2 3 decks rows show ?thesis
    unfolding names_def by blast
qed

text \<open>
  Alpha against Beta: one game against type Blue, two against type Green, three in the
  pooled row.
\<close>

lemmas two_defs = two_types_games_def game_def str_defs type_selected_def
  cond_my_deck_focus_def cond_opponent_deck_focus_def

lemma two_types_tuples:
  "all_faced_opponents_tuples two_types_games (py ''Alpha'') ALL_TYPES_PLACEHOLDER
     = [(py ''Beta'', py ''Blue''), (py ''Beta'', py ''Green'')]"
  by (simp add: focus_defs two_defs all_faced_opponents_tuples_def opponents_set_def unique_def
      lower_eq_nan_def lower_ascii_def)

lemma two_types_specific:
  "\<exists>r1 r2. matchup_data two_types_games (py ''Alpha'') ALL_TYPES_PLACEHOLDER = Inr [r1, r2]
     \<and> row_deck r1 = py ''Beta'' \<and> row_type r1 = py ''Blue'' \<and> games_played r1 = 1
     \<and> row_deck r2 = py ''Beta'' \<and> row_type r2 = py ''Green'' \<and> games_played r2 = 2"
  unfolding matchup_data_eq two_types_tuples
  by (simp add: List.map_filter_simps matchup_defs focus_defs two_defs)

theorem pooled_is_sum_of_specific_witness:
  "\<exists>specific pooled.
      matchup_data two_types_games (py ''Alpha'') ALL_TYPES_PLACEHOLDER = Inr specific
    \<and> agg_matchup_data two_types_games (py ''Alpha'') ALL_TYPES_PLACEHOLDER specific = Inr pooled
    \<and> map (\<lambda>r. (row_deck r, row_type r, games_played r)) specific
        = [(py ''Beta'', py ''Blue'', 1), (py ''Beta'', py ''Green'', 2)]
    \<and> map (\<lambda>r. (row_deck r, row_type r, games_played r)) pooled
        = [(py ''Beta'', ALL_TYPES_PLACEHOLDER, 3)]"
proof -
  obtain r1 r2 where
    m: "matchup_data two_types_games (py ''Alpha'') ALL_TYPES_PLACEHOLDER = Inr [r1, r2]"
    and r: "row_deck r1 = py ''Beta''" "row_type r1 = py ''Blue''" "games_played r1 = 1"
      "row_deck r2 = py ''Beta''" "row_type r2 = py ''Green''" "games_played r2 = 2"
    using two_types_specific by blast
  obtain pooled where
    a: "agg_matchup_data two_types_games (py ''Alpha'') ALL_TYPES_PLACEHOLDER [r1, r2] = Inr pooled"
    and d: "map row_deck pooled = unique (map row_deck [r1, r2])"
    and p: "\<forall>p \<in> set pooled. row_type p = ALL_TYPES_PLACEHOLDER
          \<and> games_played p
            = sum_list (map games_played (filter (\<lambda>s. row_deck s = row_deck p) [r1, r2]))"
    using pooled_is_sum_of_specific [of two_types_games "py ''Alpha''" ALL_TYPES_PLACEHOLDER]
    unfolding m by auto
  from d have "map row_deck pooled = [py ''Beta'']"
    by (simp add: r unique_def)
  then obtain q where q: "pooled = [q]" "row_deck q = py ''Beta''"
    by auto
  with p have "row_type q = ALL_TYPES_PLACEHOLDER" "games_played q = 3"
    by (simp_all add: r)
  with m a q r show ?thesis by simp
qed

section \<open>Sorting a table by one column\<close>

lemma map_filter_pairs_snd:
  "map snd (List.map_filter (\<lambda>r. map_option (\<lambda>k. (k, r)) (col r)) rows)
     = filter (\<lambda>r. col r \<noteq> None) rows"
  by (induction rows) (auto simp: List.map_filter_simps split: option.splits)

lemma mset_sort_values_desc: "mset (sort_values_desc col rows) = mset rows"
proof -
  let ?kvs = "List.map_filter (\<lambda>r. map_option (\<lambda>k. (k, r)) (col r)) rows"
  have "mset (map snd (rev (sort_key fst (rev ?kvs)))) = mset (map snd ?kvs)"
    by simp
  also have "\<dots> = mset (filter (\<lambda>r. col r \<noteq> None) rows)"
    by (simp only: map_filter_pairs_snd)
  finally have "mset (sort_values_desc col rows)
      = mset (filter (\<lambda>r. col r \<noteq> None) rows) + mset (filter (\<lambda>r. \<not> col r \<noteq> None) rows)"
    by (simp add: sort_values_desc_def)
  then show ?thesis
    by (simp only: mset_filter multiset_partition [symmetric])
qed

lemma set_sort_values_desc: "set (sort_values_desc col rows) = set rows"
  using mset_sort_values_desc [of col rows] by (metis set_mset_mset)

section \<open>Blank and missing names\<close>

lemma lower_ascii_n: "lower_ascii c = 0x6E \<longleftrightarrow> c = 0x6E \<or> c = 0x4E"
  by (auto simp: lower_ascii_def)

lemma lower_ascii_a: "lower_ascii c = 0x61 \<longleftrightarrow> c = 0x61 \<or> c = 0x41"
  by (auto simp: lower_ascii_def)

lemma lower_eq_nan_iff:
  "lower_eq_nan s \<longleftrightarrow>
     (\<exists>c1 c2 c3. s = [c1, c2, c3] \<and> (c1 = 0x6E \<or> c1 = 0x4E) \<and> (c2 = 0x61 \<or> c2 = 0x41)
        \<and> (c3 = 0x6E \<or> c3 = 0x4E))"
proof -
  have "lower_eq_nan s \<longleftrightarrow> map lower_ascii s = [0x6E, 0x61, 0x6E]"
    by (simp add: lower_eq_nan_def py_def)
  also have "\<dots> \<longleftrightarrow> (\<exists>c1 c2 c3. s = [c1, c2, c3] \<and> lower_ascii c1 = 0x6E
        \<and> lower_ascii c2 = 0x61 \<and> lower_ascii c3 = 0x6E)"
    by (auto simp: map_eq_Cons_conv)
  finally show ?thesis
    by (simp only: lower_ascii_n lower_ascii_a)
qed

lemma lower_eq_nan_cases:
  "lower_eq_nan s \<longleftrightarrow>
     s \<in> set (map py [''nan'', ''naN'', ''nAn'', ''nAN'', ''Nan'', ''NaN'', ''NAn'', ''NAN''])"
  unfolding lower_eq_nan_iff by (auto simp: py_def)

lemma strip_nan: "lower_eq_nan s \<Longrightarrow> strip s = s"
  unfolding lower_eq_nan_iff by (auto simp: strip_def isspace_def)

lemma opponent_name_valid:
  assumes "b \<in> set (unique_opponents_faced_by_deck_a df a)"
  shows "b \<noteq> [] \<and> \<not> lower_eq_nan b"
proof -
  from assms have s: "strip b \<noteq> []" "\<not> lower_eq_nan (strip b)"
    unfolding set_unique_opponents by auto
  from s(1) have "b \<noteq> []" by (auto simp: strip_def)
  moreover have "\<not> lower_eq_nan b"
    using s(2) strip_nan [of b] by auto
  ultimately show ?thesis ..
qed

lemma names_valid:
  "n \<in> set (get_all_analyzable_deck_names df) \<Longrightarrow> n \<noteq> [] \<and> \<not> lower_eq_nan n"
  by (auto simp: get_all_analyzable_deck_names_def Let_def)

lemma types_valid:
  "t \<in> set (get_all_types_for_archetype df deck_name) \<Longrightarrow> t \<noteq> [] \<and> \<not> lower_eq_nan t"
  by (auto simp: get_all_types_for_archetype_def Let_def ALL_TYPES_PLACEHOLDER_def
      lower_eq_nan_def py_def split: if_splits)

lemma overview_rows_valid:
  "\<exists>rows. display_general_deck_performance df = Inr rows
     \<and> (\<forall>row \<in> set rows. deck_archetype row \<in> set (get_all_analyzable_deck_names df))"
proof -
  let ?g = "\<lambda>a. case overview_entry df a of Inr r \<Rightarrow> r"
  have e: "general_performance_data df = Inr (List.map_filter ?g (get_all_analyzable_deck_names df))"
    unfolding general_performance_data_def
    by (rule collect_rows_Inr) (simp add: overview_entry_eq)
  have "deck_archetype row \<in> set (get_all_analyzable_deck_names df)"
    if "row \<in> set (List.map_filter ?g (get_all_analyzable_deck_names df))" for row
    using that by (auto simp: List.map_filter_def overview_entry_eq split: if_splits)
  then show ?thesis
    by (simp add: display_general_deck_performance_def e set_sort_values_desc)
qed

text \<open>
  C10. Every deck name returned by \<open>get_all_analyzable_deck_names\<close>, every type returned
  by \<open>get_all_types_for_archetype\<close> (the placeholder included), the deck of every row of
  the overview, every opponent counted for the average matchup win rate and the deck of
  every opponent pair of the focus analysis is a non-empty string that is none of the
  eight spellings of \<open>nan\<close>. Records with such names are passed over, not rejected:
  the functions are total and the overview is computed without failure.
\<close>

theorem blank_and_nan_excluded:
  "(\<forall>n \<in> set (get_all_analyzable_deck_names df). n \<noteq> [] \<and> \<not> lower_eq_nan n)
   \<and> (\<forall>t \<in> set (get_all_types_for_archetype df deck_name). t \<noteq> [] \<and> \<not> lower_eq_nan t)
   \<and> (\<exists>rows. display_general_deck_performance df = Inr rows
        \<and> (\<forall>row \<in> set rows. deck_archetype row \<noteq> [] \<and> \<not> lower_eq_nan (deck_archetype row)))
   \<and> (\<forall>b \<in> set (unique_opponents_faced_by_deck_a df a). b \<noteq> [] \<and> \<not> lower_eq_nan b)
   \<and> (\<forall>t \<in> set (all_faced_opponents_tuples df deck ty).
         fst t \<noteq> [] \<and> \<not> lower_eq_nan (fst t))
   \<and> (lower_eq_nan s \<longleftrightarrow>
        s \<in> set (map py [''nan'', ''naN'', ''nAn'', ''nAN'', ''Nan'', ''NaN'', ''NAn'', ''NAN'']))"
proof -
  have 1: "\<forall>n \<in> set (get_all_analyzable_deck_names df). n \<noteq> [] \<and> \<not> lower_eq_nan n"
    using names_valid by blast
  have 2: "\<forall>t \<in> set (get_all_types_for_archetype df deck_name). t \<noteq> [] \<and> \<not> lower_eq_nan t"
    using types_valid by blast
  have 3: "\<exists>rows. display_general_deck_performance df = Inr rows
        \<and> (\<forall>row \<in> set rows. deck_archetype row \<noteq> [] \<and> \<not> lower_eq_nan (deck_archetype row))"
    using overview_rows_valid [of df] names_valid [of _ df] by blast
  have 4: "\<forall>b \<in> set (unique_opponents_faced_by_deck_a df a). b \<noteq> [] \<and> \<not> lower_eq_nan b"
    using opponent_name_valid by blast
  have 5: "\<forall>t \<in> set (all_faced_opponents_tuples df deck ty).
         fst t \<noteq> [] \<and> \<not> lower_eq_nan (fst t)"
    by (simp add: set_all_faced)
  have 6: "lower_eq_nan s \<longleftrightarrow>
        s \<in> set (map py [''nan'', ''naN'', ''nAn'', ''nAN'', ''Nan'', ''NaN'', ''NAn'', ''NAN''])"
    by (rule lower_eq_nan_cases)
  from 1 2 3 4 5 6 show ?thesis by (intro conjI)
qed

text \<open>
  With one deck name missing, one empty and one type missing, only Alpha and Beta, the
  type Red and the opponent Beta are enumerated.
\<close>

lemmas nan_defs = nan_name_games_def game_def str_defs

lemma nan_names:
  "get_all_analyzable_deck_names nan_name_games = [py ''Alpha'', py ''Beta'']"
  by (simp add: get_all_analyzable_deck_names_def nan_defs unique_def lower_eq_nan_def
      lower_ascii_def)

lemma nan_types:
  "get_all_types_for_archetype nan_name_games (py ''Alpha'') = [ALL_TYPES_PLACEHOLDER, py ''Red'']"
  by (simp add: get_all_types_for_archetype_def nan_defs SELECT_PLACEHOLDER_def lower_eq_nan_def
      lower_ascii_def)

lemma nan_opponents:
  "unique_opponents_faced_by_deck_a nan_name_games (py ''Alpha'') = [py ''Beta'']"
  by (simp add: unique_opponents_faced_by_deck_a_def games_involving_deck_a_def nan_defs
      List.map_filter_def opponent_counted_def opponent_for_this_game_def unique_def strip_def
      isspace_def lower_eq_nan_def lower_ascii_def)

lemma nan_tuples:
  "all_faced_opponents_tuples nan_name_games (py ''Alpha'') ALL_TYPES_PLACEHOLDER
     = [(py ''Beta'', [])]"
  by (simp add: focus_defs nan_defs type_selected_def cond_my_deck_focus_def
      cond_opponent_deck_focus_def all_faced_opponents_tuples_def opponents_set_def unique_def
      lower_eq_nan_def lower_ascii_def)

theorem blank_and_nan_excluded_witness:
  "map my_deck nan_name_games = [py ''nan'', py ''Alpha'', py ''Alpha'']
   \<and> map opponent_deck nan_name_games = [py ''Alpha'', [], py ''Beta'']
   \<and> get_all_analyzable_deck_names nan_name_games = [py ''Alpha'', py ''Beta'']
   \<and> get_all_types_for_archetype nan_name_games (py ''Alpha'')
       = [ALL_TYPES_PLACEHOLDER, py ''Red'']
   \<and> unique_opponents_faced_by_deck_a nan_name_games (py ''Alpha'') = [py ''Beta'']
   \<and> all_faced_opponents_tuples nan_name_games (py ''Alpha'') ALL_TYPES_PLACEHOLDER
       = [(py ''Beta'', [])]
   \<and> lower_eq_nan (py ''NaN'')"
  using blank_and_nan_excluded [of nan_name_games "py ''Alpha''" "py ''Alpha''" "py ''Alpha''"
      ALL_TYPES_PLACEHOLDER "py ''NaN''"]
  by (simp add: nan_names nan_types nan_opponents nan_tuples) (simp add: nan_defs)

section \<open>The order of a sorted table\<close>

text \<open>
  Whatever the order among equal values: the rows with a value come first, in descending
  order of the value, and the rows without one come last.
\<close>

lemma map_filter_append:
  "List.map_filter f (xs @ ys) = List.map_filter f xs @ List.map_filter f ys"
  by (simp add: List.map_filter_def)

lemma map_filter_pairs_fst:
  "map fst (List.map_filter (\<lambda>r. map_option (\<lambda>k. (k, r)) (col r)) rows)
     = List.map_filter col rows"
  by (induction rows) (auto simp: List.map_filter_simps split: option.splits)

lemma map_filter_col_snd:
  "(\<And>k r. (k, r) \<in> set kvs \<Longrightarrow> col r = Some k) \<Longrightarrow>
     List.map_filter col (map snd kvs) = map fst kvs"
proof (induction kvs)
  case Nil
  show ?case by (simp add: List.map_filter_simps)
next
  case (Cons kv kvs)
  have "col (snd kv) = Some (fst kv)"
    using Cons.prems [of "fst kv" "snd kv"] by simp
  moreover have "List.map_filter col (map snd kvs) = map fst kvs"
    by (rule Cons.IH) (simp add: Cons.prems)
  ultimately show ?case by (simp add: List.map_filter_simps)
qed

lemma map_filter_none:
  "List.map_filter col (filter (\<lambda>r. col r = None) rows) = []"
  by (induction rows) (auto simp: List.map_filter_simps)

lemma sort_values_desc_descending:
  "sorted (rev (List.map_filter col (sort_values_desc col rows)))"
proof -
  let ?kvs = "List.map_filter (\<lambda>r. map_option (\<lambda>k. (k, r)) (col r)) rows"
  have in_kvs: "col r = Some k" if "(k, r) \<in> set ?kvs" for k r
    using that by (auto simp: List.map_filter_def)
  have "List.map_filter col (map snd (rev (sort_key fst (rev ?kvs))))
      = map fst (rev (sort_key fst (rev ?kvs)))"
    by (rule map_filter_col_snd) (use in_kvs in auto)
  then have "List.map_filter col (sort_values_desc col rows)
      = rev (map fst (sort_key fst (rev ?kvs)))"
    by (simp add: sort_values_desc_def map_filter_append map_filter_none rev_map)
  then show ?thesis
    by (simp only: rev_rev_ident sorted_sort_key)
qed

lemma sort_values_desc_na_last:
  "sort_values_desc col rows
     = filter (\<lambda>r. col r \<noteq> None) (sort_values_desc col rows)
       @ filter (\<lambda>r. col r = None) (sort_values_desc col rows)"
proof -
  let ?kvs = "List.map_filter (\<lambda>r. map_option (\<lambda>k. (k, r)) (col r)) rows"
  let ?dated = "map snd (rev (sort_key fst (rev ?kvs)))"
  have "set ?dated = set (map snd ?kvs)"
    by simp
  then have "set ?dated = set (filter (\<lambda>r. col r \<noteq> None) rows)"
    by (simp only: map_filter_pairs_snd)
  then have d: "\<forall>r \<in> set ?dated. col r \<noteq> None"
    by auto
  have 1: "filter (\<lambda>r. col r \<noteq> None) ?dated = ?dated"
    using d by (simp only: filter_True)
  have 2: "filter (\<lambda>r. col r = None) ?dated = []"
    using d by (simp only: filter_False) 
  have 3: "filter (\<lambda>r. col r \<noteq> None) (filter (\<lambda>r. col r = None) rows) = []"
    by (auto simp: filter_empty_conv)
  have 4: "filter (\<lambda>r. col r = None) (filter (\<lambda>r. col r = None) rows)
      = filter (\<lambda>r. col r = None) rows"
    by simp
  show ?thesis
    unfolding sort_values_desc_def filter_append 1 2 3 4 by simp
qed

text \<open>
  The overview is in descending order of the average matchup win rate, the rows without
  one last. (The source leaves the order among rows of equal average to the sorting
  algorithm of pandas.)
\<close>

lemma overview_order:
  "\<exists>rows. display_general_deck_performance df = Inr rows
     \<and> sorted (rev (List.map_filter avg_matchup_win_rate rows))
     \<and> rows = filter (\<lambda>r. avg_matchup_win_rate r \<noteq> None) rows
              @ filter (\<lambda>r. avg_matchup_win_rate r = None) rows"
proof -
  obtain rows where r: "general_performance_data df = Inr rows"
    using general_performance_data_total by blast
  show ?thesis
    unfolding display_general_deck_performance_def r
    using sort_values_desc_descending [of avg_matchup_win_rate rows]
      sort_values_desc_na_last [of avg_matchup_win_rate rows]
    by simp
qed


















section \<open>Rendered dates\<close>

text \<open>
  The rendering of dates keeps their order: for years of four digits, the strings
  compare as the calendar days do.
\<close>

lemma lex_pair10:
  fixes h l h' l' :: nat
  assumes "l < 10" "l' < 10"
  shows "(h < h' \<or> (h = h' \<and> (l < l' \<or> (l = l' \<and> R))))
       = (10 * h + l < 10 * h' + l' \<or> (10 * h + l = 10 * h' + l' \<and> R))"
  using assms by (cases R) auto

lemma lex_pair100:
  fixes h l h' l' :: nat
  assumes "l < 100" "l' < 100"
  shows "(h < h' \<or> (h = h' \<and> (l < l' \<or> (l = l' \<and> R))))
       = (100 * h + l < 100 * h' + l' \<or> (100 * h + l = 100 * h' + l' \<and> R))"
  using assms by (cases R) auto

lemma lex2:
  fixes m m' :: nat
  assumes "m < 100" "m' < 100"
  shows "(m div 10 mod 10 < m' div 10 mod 10
          \<or> (m div 10 mod 10 = m' div 10 mod 10 \<and> (m mod 10 < m' mod 10 \<or> (m mod 10 = m' mod 10 \<and> R))))
       = (m < m' \<or> (m = m' \<and> R))"
proof -
  have a: "m div 10 mod 10 = m div 10" "m' div 10 mod 10 = m' div 10"
    using assms by simp_all
  have "(m div 10 < m' div 10
          \<or> (m div 10 = m' div 10 \<and> (m mod 10 < m' mod 10 \<or> (m mod 10 = m' mod 10 \<and> R))))
      = (10 * (m div 10) + m mod 10 < 10 * (m' div 10) + m' mod 10
          \<or> (10 * (m div 10) + m mod 10 = 10 * (m' div 10) + m' mod 10 \<and> R))"
    by (rule lex_pair10) simp_all
  then show ?thesis
    by (simp only: a mult_div_mod_eq)
qed

lemma div_1000: "(y::nat) div 1000 = y div 100 div 10"
  by (simp add: div_mult2_eq [symmetric])

lemma div_10_mod_10: "(y::nat) div 10 mod 10 = y mod 100 div 10 mod 10"
proof -
  have "y mod 100 div 10 = y div 10 mod 10"
    using mod_mult2_eq [of y 10 10] by simp
  then show ?thesis by simp
qed

lemma mod_10: "(y::nat) mod 10 = y mod 100 mod 10"
  by (simp add: mod_mod_cancel)

lemma lex4:
  fixes y y' :: nat
  assumes "y < 10000" "y' < 10000"
  shows "(y div 1000 mod 10 < y' div 1000 mod 10
          \<or> (y div 1000 mod 10 = y' div 1000 mod 10 \<and>
             (y div 100 mod 10 < y' div 100 mod 10
              \<or> (y div 100 mod 10 = y' div 100 mod 10 \<and>
                 (y div 10 mod 10 < y' div 10 mod 10
                  \<or> (y div 10 mod 10 = y' div 10 mod 10 \<and>
                     (y mod 10 < y' mod 10 \<or> (y mod 10 = y' mod 10 \<and> R))))))))
       = (y < y' \<or> (y = y' \<and> R))"
proof -
  let ?h = "y div 100" and ?h' = "y' div 100" and ?l = "y mod 100" and ?l' = "y' mod 100"
  let ?low = "?l < ?l' \<or> (?l = ?l' \<and> R)"
  have hb: "?h < 100" "?h' < 100" using assms by simp_all
  have lb: "?l < 100" "?l' < 100" by simp_all
  have "(?h < ?h' \<or> (?h = ?h' \<and> (?l < ?l' \<or> (?l = ?l' \<and> R))))
      = (100 * ?h + ?l < 100 * ?h' + ?l' \<or> (100 * ?h + ?l = 100 * ?h' + ?l' \<and> R))"
    by (rule lex_pair100) simp_all
  then have top: "(?h < ?h' \<or> (?h = ?h' \<and> ?low)) = (y < y' \<or> (y = y' \<and> R))"
    by (simp only: mult_div_mod_eq)
  have low: "(?l div 10 mod 10 < ?l' div 10 mod 10
          \<or> (?l div 10 mod 10 = ?l' div 10 mod 10 \<and>
              (?l mod 10 < ?l' mod 10 \<or> (?l mod 10 = ?l' mod 10 \<and> R)))) = ?low"
    by (rule lex2 [OF lb])
  have high: "(?h div 10 mod 10 < ?h' div 10 mod 10
          \<or> (?h div 10 mod 10 = ?h' div 10 mod 10 \<and>
              (?h mod 10 < ?h' mod 10 \<or> (?h mod 10 = ?h' mod 10 \<and> ?low))))
       = (?h < ?h' \<or> (?h = ?h' \<and> ?low))"
    by (rule lex2 [OF hb])
  show ?thesis
    unfolding div_1000 [of y] div_1000 [of y'] div_10_mod_10 [of y] div_10_mod_10 [of y']
      mod_10 [of y] mod_10 [of y'] low high top ..
qed

lemma lex2_le:
  fixes m m' :: nat
  assumes "m < 100" "m' < 100"
  shows "(m div 10 mod 10 < m' div 10 mod 10
          \<or> (m div 10 mod 10 = m' div 10 mod 10 \<and> (m mod 10 < m' mod 10 \<or> m mod 10 = m' mod 10)))
       = (m \<le> m')"
  using lex2 [OF assms, of True] by auto

lemma strftime_ymd_le:
  assumes "year t < 10000" "year t' < 10000" "month t < 100" "month t' < 100"
    "day t < 100" "day t' < 100"
  shows "strftime_ymd t \<le> strftime_ymd t' \<longleftrightarrow>
     (year t, month t, day t) \<le> (year t', month t', day t')"
proof -
  have "strftime_ymd t \<le> strftime_ymd t' \<longleftrightarrow>
      (year t < year t' \<or> (year t = year t' \<and>
         (month t < month t' \<or> (month t = month t' \<and> day t \<le> day t'))))"
    unfolding strftime_ymd_def digit_def
    by (simp only: Cons_le_Cons Nil_le_Cons add_less_cancel_left add_left_cancel refl simp_thms
        less_irrefl lex2_le [OF assms(5,6)] lex2 [OF assms(3,4)] lex4 [OF assms(1,2)])
  also have "\<dots> \<longleftrightarrow> (year t, month t, day t) \<le> (year t', month t', day t')"
    by auto
  finally show ?thesis .
qed

section \<open>The rows with a memo\<close>

lemma set_all_memo_games:
  "set (all_memo_games df deck ty) =
     {r \<in> set df. (cond_my_deck_focus deck ty r \<or> cond_opponent_deck_focus deck ty r)
        \<and> strip (memo r) \<noteq> [] \<and> \<not> lower_eq_nan (memo r)}"
  by (auto simp: all_memo_games_def memos_when_my_deck_def memos_when_opponent_deck_def
      memo_filter_def focus_as_my_deck_games_def focus_as_opponent_deck_games_def)

lemma mset_memo_table:
  "mset (memo_table df deck ty) = image_mset render_date (mset (all_memo_games df deck ty))"
  by (simp add: memo_table_def df_memo_display_def mset_sort_values_desc)

text \<open>
  C9, as the code computes it. The memo table holds, with the date rendered as a
  calendar string, the records of the two subsets of the focus key whose memo is not
  blank and not \<open>nan\<close> in any letter case, each distinct content once: the duplicates
  are dropped by the values of the columns, so a record in both subsets appears once, and
  so do different records that agree in every column. The dated rows come first, in
  descending order of the rendered date (which is the order of the calendar days, see
  \<open>strftime_ymd_le\<close>), and the undated rows come last.
\<close>

theorem memo_records:
  "mset (memo_table df deck ty) =
     image_mset render_date (mset_set
       {r \<in> set df. (cond_my_deck_focus deck ty r \<or> cond_opponent_deck_focus deck ty r)
          \<and> strip (memo r) \<noteq> [] \<and> \<not> lower_eq_nan (memo r)})
   \<and> memo_table df deck ty =
       filter (\<lambda>r. date r \<noteq> None) (memo_table df deck ty)
       @ filter (\<lambda>r. date r = None) (memo_table df deck ty)
   \<and> sorted (rev (List.map_filter date (memo_table df deck ty)))"
proof -
  have "distinct (all_memo_games df deck ty)"
    by (simp add: all_memo_games_def)
  then have "mset (all_memo_games df deck ty) = mset_set (set (all_memo_games df deck ty))"
    by (simp add: mset_set_set)
  then have 1: "mset (memo_table df deck ty) =
     image_mset render_date (mset_set
       {r \<in> set df. (cond_my_deck_focus deck ty r \<or> cond_opponent_deck_focus deck ty r)
          \<and> strip (memo r) \<noteq> [] \<and> \<not> lower_eq_nan (memo r)})"
    by (simp only: mset_memo_table set_all_memo_games)
  have 2: "memo_table df deck ty =
       filter (\<lambda>r. date r \<noteq> None) (memo_table df deck ty)
       @ filter (\<lambda>r. date r = None) (memo_table df deck ty)"
    unfolding memo_table_def
    using sort_values_desc_na_last [of date "df_memo_display df deck ty"] by auto
  have 3: "sorted (rev (List.map_filter date (memo_table df deck ty)))"
    unfolding memo_table_def
    using sort_values_desc_descending [of date "df_memo_display df deck ty"]
    by (auto simp: List.map_filter_simps)
  from 1 2 3 show ?thesis by (intro conjI)
qed

text \<open>
  Of the five dated records the one with the blank memo is left out and the mirror match
  appears once; the undated record comes last.
\<close>

lemmas memo_eval_defs = memo_table_def df_memo_display_def all_memo_games_def
  memos_when_my_deck_def memos_when_opponent_deck_def memo_filter_def
  focus_as_my_deck_games_def focus_as_opponent_deck_games_def cond_my_deck_focus_def
  cond_opponent_deck_focus_def type_selected_def strip_def isspace_def lower_eq_nan_def
  lower_ascii_def unique_def sort_values_desc_def List.map_filter_def render_date_def
  strftime_ymd_def digit_def

theorem memo_records_witness:
  "map (\<lambda>r. (date r, memo r)) (memo_table memo_games (py ''Alpha'') ALL_TYPES_PLACEHOLDER) =
     [(Some (py ''2025-01-03''), py ''mirror''),
      (Some (py ''2024-11-20''), py ''second''),
      (Some (py ''2024-05-01''), py ''first''),
      (None, py ''undated'')]"
  using memo_records [of memo_games "py ''Alpha''" ALL_TYPES_PLACEHOLDER]
  by (simp add: memo_eval_defs memo_games_def dated_game_def str_defs)

text \<open>
  C9 as stated fails on identity: of two records that agree in every column the memo
  table shows one, although both carry the memo and both are records of the focus deck.
\<close>

theorem duplicate_memo_collapsed:
  "length (memo_table duplicate_memo_games (py ''Alpha'') ALL_TYPES_PLACEHOLDER) = 1
   \<and> length (filter (\<lambda>r. (cond_my_deck_focus (py ''Alpha'') ALL_TYPES_PLACEHOLDER r
                        \<or> cond_opponent_deck_focus (py ''Alpha'') ALL_TYPES_PLACEHOLDER r)
                      \<and> strip (memo r) \<noteq> []) duplicate_memo_games) = 2"
  by (simp add: memo_table_def df_memo_display_def all_memo_games_def memos_when_my_deck_def
      memos_when_opponent_deck_def memo_filter_def focus_as_my_deck_games_def
      focus_as_opponent_deck_games_def cond_my_deck_focus_def cond_opponent_deck_focus_def
      type_selected_def duplicate_memo_games_def game_def str_defs strip_def isspace_def
      lower_eq_nan_def lower_ascii_def unique_def sort_values_desc_def List.map_filter_def
      render_date_def)

end
